theory Spec2Isabelle
  imports Complex_Main "HOL-Library.Sublist"
begin

section \<open>JavaScript values\<close>

text \<open>
  The cleaner works on what \<^verbatim>\<open>JSON.parse\<close> and the CSV parser deliver: arrays of plain
  objects whose fields hold primitive values. A number is an IEEE double in the program;
  here a finite number is the real it denotes (rounding, overflow and the negative zero
  are left out), and the three special values are kept apart. A string is a list of
  characters, one \<^typ>\<open>char\<close> for each code unit (the ASCII range). A record is the list
  of its own properties in insertion order; nested objects and arrays as field values are
  left out, and a field name is taken to be none of the members that
  \<^verbatim>\<open>Object.prototype\<close> supplies, so that reading a name the record lacks gives
  \<^verbatim>\<open>undefined\<close>.
\<close>

datatype jsnum = NaN | NegInf | Fin real | PosInf

datatype jsval = Undefined | Null | Bool bool | Num jsnum | Str string

datatype error = SyntaxError | TypeError

type_synonym jsobject = "(string \<times> jsval) list"

subsection \<open>Number arithmetic\<close>

fun num_neg :: "jsnum \<Rightarrow> jsnum" where
  "num_neg NaN = NaN"
| "num_neg NegInf = PosInf"
| "num_neg PosInf = NegInf"
| "num_neg (Fin a) = Fin (- a)"

fun num_add :: "jsnum \<Rightarrow> jsnum \<Rightarrow> jsnum" where
  "num_add NaN b = NaN"
| "num_add a NaN = NaN"
| "num_add (Fin a) (Fin b) = Fin (a + b)"
| "num_add PosInf NegInf = NaN"
| "num_add NegInf PosInf = NaN"
| "num_add PosInf b = PosInf"
| "num_add NegInf b = NegInf"
| "num_add (Fin a) b = b"

definition num_sub :: "jsnum \<Rightarrow> jsnum \<Rightarrow> jsnum" where
  "num_sub a b = num_add a (num_neg b)"

text \<open>The sign of a number: \<open>-1\<close>, \<open>0\<close> or \<open>1\<close>; only called on numbers other than NaN.\<close>

fun num_sign :: "jsnum \<Rightarrow> int" where
  "num_sign NaN = 0"
| "num_sign NegInf = - 1"
| "num_sign PosInf = 1"
| "num_sign (Fin a) = (if a < 0 then - 1 else if a = 0 then 0 else 1)"

definition signed_inf :: "int \<Rightarrow> jsnum" where
  "signed_inf s = (if s < 0 then NegInf else PosInf)"

fun num_mul :: "jsnum \<Rightarrow> jsnum \<Rightarrow> jsnum" where
  "num_mul NaN b = NaN"
| "num_mul a NaN = NaN"
| "num_mul (Fin a) (Fin b) = Fin (a * b)"
| "num_mul a b =
     (if num_sign a = 0 \<or> num_sign b = 0 then NaN else signed_inf (num_sign a * num_sign b))"

text \<open>
  Division: a finite number over zero is an infinity of the dividend's sign (the divisor
  zero counts as positive), zero over zero and infinity over infinity are NaN.
\<close>

fun num_div :: "jsnum \<Rightarrow> jsnum \<Rightarrow> jsnum" where
  "num_div NaN b = NaN"
| "num_div a NaN = NaN"
| "num_div (Fin a) (Fin b) =
     (if b = 0 then (if a = 0 then NaN else signed_inf (num_sign (Fin a))) else Fin (a / b))"
| "num_div (Fin a) b = Fin 0"
| "num_div a (Fin b) = signed_inf (num_sign a * (if b < 0 then - 1 else 1))"
| "num_div a b = NaN"

text \<open>\<^verbatim>\<open>a < b\<close> on numbers: false as soon as one side is NaN.\<close>

fun num_less :: "jsnum \<Rightarrow> jsnum \<Rightarrow> bool" where
  "num_less NaN b = False"
| "num_less a NaN = False"
| "num_less (Fin a) (Fin b) = (a < b)"
| "num_less NegInf b = (b \<noteq> NegInf)"
| "num_less a PosInf = (a \<noteq> PosInf)"
| "num_less a b = False"

text \<open>\<^verbatim>\<open>a == b\<close> on numbers: NaN equals nothing, itself included.\<close>

definition num_eq :: "jsnum \<Rightarrow> jsnum \<Rightarrow> bool" where
  "num_eq a b = (a \<noteq> NaN \<and> a = b)"

definition num_ge :: "jsnum \<Rightarrow> jsnum \<Rightarrow> bool" where
  "num_ge a b = (num_less b a \<or> num_eq a b)"

fun num_floor :: "jsnum \<Rightarrow> jsnum" where
  "num_floor (Fin a) = Fin (of_int \<lfloor>a\<rfloor>)"
| "num_floor a = a"

fun num_ceil :: "jsnum \<Rightarrow> jsnum" where
  "num_ceil (Fin a) = Fin (- of_int \<lfloor>- a\<rfloor>)"
| "num_ceil a = a"

text \<open>A number is falsy when it is zero or NaN; \<^verbatim>\<open>x || d\<close> is \<open>d\<close> for a falsy \<open>x\<close>.\<close>

definition num_truthy :: "jsnum \<Rightarrow> bool" where
  "num_truthy a = (a \<noteq> NaN \<and> a \<noteq> Fin 0)"

definition num_or :: "jsnum \<Rightarrow> jsnum \<Rightarrow> jsnum" where
  "num_or a d = (if num_truthy a then a else d)"

text \<open>
  \<^verbatim>\<open>Math.min(...xs)\<close> and \<^verbatim>\<open>Math.max(...xs)\<close>: NaN as soon as one argument is NaN,
  and the neutral infinity for no argument at all.
\<close>

definition num_min2 :: "jsnum \<Rightarrow> jsnum \<Rightarrow> jsnum" where
  "num_min2 a b = (if num_less b a then b else a)"

definition num_max2 :: "jsnum \<Rightarrow> jsnum \<Rightarrow> jsnum" where
  "num_max2 a b = (if num_less a b then b else a)"

definition math_min :: "jsnum list \<Rightarrow> jsnum" where
  "math_min xs = (if NaN \<in> set xs then NaN else fold (\<lambda>x m. num_min2 m x) xs PosInf)"

definition math_max :: "jsnum list \<Rightarrow> jsnum" where
  "math_max xs = (if NaN \<in> set xs then NaN else fold (\<lambda>x m. num_max2 m x) xs NegInf)"

subsection \<open>Characters and strings\<close>

definition is_space :: "char \<Rightarrow> bool" where
  "is_space c = ((of_char c :: nat) \<in> {9, 10, 11, 12, 13, 32})"

definition is_digit :: "char \<Rightarrow> bool" where
  "is_digit c = (48 \<le> (of_char c :: nat) \<and> (of_char c :: nat) \<le> 57)"

definition is_lower :: "char \<Rightarrow> bool" where
  "is_lower c = (97 \<le> (of_char c :: nat) \<and> (of_char c :: nat) \<le> 122)"

definition is_upper :: "char \<Rightarrow> bool" where
  "is_upper c = (65 \<le> (of_char c :: nat) \<and> (of_char c :: nat) \<le> 90)"

text \<open>The class \<^verbatim>\<open>\w\<close> of a regular expression: letters, digits and the underscore.\<close>

definition is_word :: "char \<Rightarrow> bool" where
  "is_word c = (is_digit c \<or> is_lower c \<or> is_upper c \<or> c = CHR ''_'')"

definition lower_letters :: string where
  "lower_letters = ''abcdefghijklmnopqrstuvwxyz''"

definition upper_letters :: string where
  "upper_letters = ''ABCDEFGHIJKLMNOPQRSTUVWXYZ''"

definition upper_char :: "char \<Rightarrow> char" where
  "upper_char c = (case map_of (zip lower_letters upper_letters) c of Some u \<Rightarrow> u | None \<Rightarrow> c)"

definition lower_char :: "char \<Rightarrow> char" where
  "lower_char c = (case map_of (zip upper_letters lower_letters) c of Some l \<Rightarrow> l | None \<Rightarrow> c)"

definition toUpperCase :: "string \<Rightarrow> string" where
  "toUpperCase s = map upper_char s"

definition toLowerCase :: "string \<Rightarrow> string" where
  "toLowerCase s = map lower_char s"

definition js_trim :: "string \<Rightarrow> string" where
  "js_trim s = rev (dropWhile is_space (rev (dropWhile is_space s)))"

text \<open>\<^verbatim>\<open>s.includes(t)\<close>, \<^verbatim>\<open>s.startsWith(t)\<close> and \<^verbatim>\<open>s.endsWith(t)\<close>.\<close>

fun js_includes :: "string \<Rightarrow> string \<Rightarrow> bool" where
  "js_includes [] t = (t = [])"
| "js_includes (c # cs) t = (prefix t (c # cs) \<or> js_includes cs t)"

definition startsWith :: "string \<Rightarrow> string \<Rightarrow> bool" where
  "startsWith s t = prefix t s"

definition endsWith :: "string \<Rightarrow> string \<Rightarrow> bool" where
  "endsWith s t = prefix (rev t) (rev s)"

text \<open>
  The order of \<^verbatim>\<open><\<close> on two strings: by code units, a proper prefix first.
\<close>

fun str_less :: "string \<Rightarrow> string \<Rightarrow> bool" where
  "str_less s [] = False"
| "str_less [] (d # t) = True"
| "str_less (c # s) (d # t) =
     ((of_char c :: nat) < of_char d \<or> (c = d \<and> str_less s t))"

text \<open>
  \<^verbatim>\<open>s.split(sep)\<close> with a string separator. The second argument counts the characters
  of a separator just matched that are still to be skipped. An empty separator cuts
  between any two characters.
\<close>

fun split_go :: "string \<Rightarrow> nat \<Rightarrow> string \<Rightarrow> string \<Rightarrow> string list" where
  "split_go sep k acc [] = [rev acc]"
| "split_go sep (Suc k) acc (c # cs) = split_go sep k acc cs"
| "split_go sep 0 acc (c # cs) =
     (if prefix sep (c # cs) then rev acc # split_go sep (length sep - 1) [] cs
      else split_go sep 0 (c # acc) cs)"

definition js_split :: "string \<Rightarrow> string \<Rightarrow> string list" where
  "js_split s sep = (if sep = [] then map (\<lambda>c. [c]) s else split_go sep 0 [] s)"

text \<open>\<^verbatim>\<open>xs.join(sep)\<close> on strings.\<close>

fun js_join :: "string \<Rightarrow> string list \<Rightarrow> string" where
  "js_join sep [] = []"
| "js_join sep [x] = x"
| "js_join sep (x # y # ys) = x @ sep @ js_join sep (y # ys)"

subsection \<open>Numbers and strings\<close>

definition digit_chars :: string where
  "digit_chars = ''0123456789abcdef''"

fun nat_to_digits :: "nat \<Rightarrow> string" where
  "nat_to_digits n =
     (if n < 10 then [digit_chars ! n] else nat_to_digits (n div 10) @ [digit_chars ! (n mod 10)])"

declare nat_to_digits.simps [simp del]

text \<open>The digits after the decimal point, at most as many as the first argument says.\<close>

fun frac_digits :: "nat \<Rightarrow> real \<Rightarrow> string" where
  "frac_digits 0 f = []"
| "frac_digits (Suc k) f =
     (if f = 0 then []
      else digit_chars ! nat \<lfloor>10 * f\<rfloor> # frac_digits k (10 * f - of_int \<lfloor>10 * f\<rfloor>))"

text \<open>
  \<^verbatim>\<open>String(n)\<close> on a number. An integer is written with all its digits, as JavaScript
  does below \<open>10\<^sup>2\<^sup>1\<close>; another finite number is written in positional notation with at
  most twenty digits after the point (the shortest digit string that JavaScript picks
  for a double, and its exponent notation, are not modelled).
\<close>

definition unsigned_to_string :: "real \<Rightarrow> string" where
  "unsigned_to_string a =
     nat_to_digits (nat \<lfloor>a\<rfloor>) @
     (if a = of_int \<lfloor>a\<rfloor> then [] else CHR ''.'' # frac_digits 20 (a - of_int \<lfloor>a\<rfloor>))"

fun NumberToString :: "jsnum \<Rightarrow> string" where
  "NumberToString NaN = ''NaN''"
| "NumberToString PosInf = ''Infinity''"
| "NumberToString NegInf = ''-Infinity''"
| "NumberToString (Fin a) =
     (if a < 0 then CHR ''-'' # unsigned_to_string (- a) else unsigned_to_string a)"

definition is_hex :: "char \<Rightarrow> bool" where
  "is_hex c = (is_digit c \<or> (97 \<le> (of_char c :: nat) \<and> (of_char c :: nat) \<le> 102)
                \<or> (65 \<le> (of_char c :: nat) \<and> (of_char c :: nat) \<le> 70))"

definition digit_val :: "char \<Rightarrow> nat" where
  "digit_val c =
     (if is_digit c then of_char c - 48
      else if 97 \<le> (of_char c :: nat) then of_char c - 87 else of_char c - 55)"

fun digits_val :: "nat \<Rightarrow> nat \<Rightarrow> string \<Rightarrow> nat" where
  "digits_val b acc [] = acc"
| "digits_val b acc (c # cs) = digits_val b (acc * b + digit_val c) cs"

definition radix_literal :: "nat \<Rightarrow> string \<Rightarrow> jsnum" where
  "radix_literal b ds =
     (if ds \<noteq> [] \<and> list_all (\<lambda>c. is_hex c \<and> digit_val c < b) ds
      then Fin (of_nat (digits_val b 0 ds)) else NaN)"

definition all_digits :: "string \<Rightarrow> bool" where
  "all_digits ds = (ds \<noteq> [] \<and> list_all is_digit ds)"

text \<open>
  An unsigned decimal literal: digits, an optional point with digits (at least one digit
  on one side of it), an optional exponent. None when the text is no such literal.
\<close>

definition exponent_part :: "real \<Rightarrow> string \<Rightarrow> real option" where
  "exponent_part m r =
     (case r of
        [] \<Rightarrow> None
      | s # ds \<Rightarrow>
          if s = CHR ''-'' then (if all_digits ds then Some (m / 10 ^ digits_val 10 0 ds) else None)
          else if s = CHR ''+'' then (if all_digits ds then Some (m * 10 ^ digits_val 10 0 ds) else None)
          else if all_digits r then Some (m * 10 ^ digits_val 10 0 r) else None)"

definition unsigned_decimal :: "string \<Rightarrow> real option" where
  "unsigned_decimal t =
     (let ip = takeWhile is_digit t;
          r1 = dropWhile is_digit t;
          pt = (r1 \<noteq> [] \<and> hd r1 = CHR ''.'');
          fp = (if pt then takeWhile is_digit (tl r1) else []);
          r2 = (if pt then dropWhile is_digit (tl r1) else r1);
          m = of_nat (digits_val 10 0 (ip @ fp)) / 10 ^ length fp
      in if ip = [] \<and> fp = [] then None
         else case r2 of
                [] \<Rightarrow> Some m
              | e # r \<Rightarrow> if e = CHR ''e'' \<or> e = CHR ''E'' then exponent_part m r else None)"

text \<open>
  \<^verbatim>\<open>Number(s)\<close> on a string: white space around the literal is dropped, the empty text
  is 0, a text that is no numeric literal is NaN.
\<close>

definition StringToNumber :: "string \<Rightarrow> jsnum" where
  "StringToNumber s =
     (let t = js_trim s; p = take 2 t in
      if t = [] then Fin 0
      else if p = ''0x'' \<or> p = ''0X'' then radix_literal 16 (drop 2 t)
      else if p = ''0o'' \<or> p = ''0O'' then radix_literal 8 (drop 2 t)
      else if p = ''0b'' \<or> p = ''0B'' then radix_literal 2 (drop 2 t)
      else let neg = (take 1 t = ''-'');
               u = (if take 1 t = ''-'' \<or> take 1 t = ''+'' then drop 1 t else t)
           in if u = ''Infinity'' then (if neg then NegInf else PosInf)
              else case unsigned_decimal u of
                     None \<Rightarrow> NaN
                   | Some x \<Rightarrow> Fin (if neg then - x else x))"

text \<open>
  \<^verbatim>\<open>parseInt(s)\<close>: leading white space, a sign, then the longest run of digits (of
  hexadecimal digits after \<^verbatim>\<open>0x\<close>); NaN when there is no digit.
\<close>

definition parseInt :: "string \<Rightarrow> jsnum" where
  "parseInt s =
     (let t = dropWhile is_space s;
          neg = (take 1 t = ''-'');
          u = (if take 1 t = ''-'' \<or> take 1 t = ''+'' then drop 1 t else t);
          hex = (take 2 u = ''0x'' \<or> take 2 u = ''0X'');
          ds = (if hex then takeWhile is_hex (drop 2 u) else takeWhile is_digit u);
          n = (of_nat (digits_val (if hex then 16 else 10) 0 ds) :: real)
      in if ds = [] then NaN else Fin (if neg then - n else n))"

subsection \<open>Conversions and comparisons of values\<close>

fun ToNumber :: "jsval \<Rightarrow> jsnum" where
  "ToNumber Undefined = NaN"
| "ToNumber Null = Fin 0"
| "ToNumber (Bool b) = Fin (if b then 1 else 0)"
| "ToNumber (Num n) = n"
| "ToNumber (Str s) = StringToNumber s"

fun ToString :: "jsval \<Rightarrow> string" where
  "ToString Undefined = ''undefined''"
| "ToString Null = ''null''"
| "ToString (Bool b) = (if b then ''true'' else ''false'')"
| "ToString (Num n) = NumberToString n"
| "ToString (Str s) = s"

text \<open>
  \<^verbatim>\<open>x == y\<close>: null and undefined equal each other and nothing else, two strings are
  compared as texts, and every other pair as numbers.
\<close>

fun loose_eq :: "jsval \<Rightarrow> jsval \<Rightarrow> bool" where
  "loose_eq Undefined y = (y = Undefined \<or> y = Null)"
| "loose_eq Null y = (y = Undefined \<or> y = Null)"
| "loose_eq x Undefined = False"
| "loose_eq x Null = False"
| "loose_eq (Str s) (Str t) = (s = t)"
| "loose_eq x y = num_eq (ToNumber x) (ToNumber y)"

text \<open>
  \<^verbatim>\<open>x < y\<close>: two strings are compared as texts, code unit by code unit; any other pair
  is converted to numbers, and the comparison is undefined (None) when one is NaN.
\<close>

fun js_lt :: "jsval \<Rightarrow> jsval \<Rightarrow> bool option" where
  "js_lt (Str s) (Str t) = Some (str_less s t)"
| "js_lt x y =
     (if ToNumber x = NaN \<or> ToNumber y = NaN then None
      else Some (num_less (ToNumber x) (ToNumber y)))"

definition js_less :: "jsval \<Rightarrow> jsval \<Rightarrow> bool" where
  "js_less x y = (js_lt x y = Some True)"

definition js_greater :: "jsval \<Rightarrow> jsval \<Rightarrow> bool" where
  "js_greater x y = (js_lt y x = Some True)"

definition js_less_eq :: "jsval \<Rightarrow> jsval \<Rightarrow> bool" where
  "js_less_eq x y = (js_lt y x = Some False)"

definition js_greater_eq :: "jsval \<Rightarrow> jsval \<Rightarrow> bool" where
  "js_greater_eq x y = (js_lt x y = Some False)"

subsection \<open>Objects\<close>

text \<open>\<^verbatim>\<open>item[field]\<close>: the value of an own property, \<^verbatim>\<open>undefined\<close> without one.\<close>

definition get_prop :: "jsobject \<Rightarrow> string \<Rightarrow> jsval" where
  "get_prop item field = (case map_of item field of None \<Rightarrow> Undefined | Some v \<Rightarrow> v)"

text \<open>
  \<^verbatim>\<open>obj[field] = v\<close>: an existing property keeps its place, a new one goes to the end.
\<close>

fun set_prop :: "(string \<times> 'v) list \<Rightarrow> string \<Rightarrow> 'v \<Rightarrow> (string \<times> 'v) list" where
  "set_prop [] f v = [(f, v)]"
| "set_prop ((g, w) # r) f v = (if g = f then (g, v) # r else (g, w) # set_prop r f v)"

text \<open>
  \<^verbatim>\<open>Object.entries(obj)\<close>: the properties whose names are array indices come first, by
  rising index, then the other properties in insertion order.
\<close>

definition is_array_index :: "string \<Rightarrow> bool" where
  "is_array_index s =
     (all_digits s \<and> (s = ''0'' \<or> hd s \<noteq> CHR ''0'') \<and> digits_val 10 0 s < 2 ^ 32 - 1)"

definition object_entries :: "(string \<times> 'v) list \<Rightarrow> (string \<times> 'v) list" where
  "object_entries r =
     sort_key (\<lambda>p. digits_val 10 0 (fst p)) (filter (\<lambda>p. is_array_index (fst p)) r) @
     filter (\<lambda>p. \<not> is_array_index (fst p)) r"

text \<open>
  \<^verbatim>\<open>JSON.stringify(item)\<close> on a record of primitive values: a property holding
  \<^verbatim>\<open>undefined\<close> is left out, NaN and the infinities are written \<^verbatim>\<open>null\<close>.
\<close>

definition json_escape_char :: "char \<Rightarrow> string" where
  "json_escape_char c =
     (let n = (of_char c :: nat) in
      if n = 34 then [CHR 0x5C, CHR 0x22]
      else if n = 92 then [CHR 0x5C, CHR 0x5C]
      else if n = 8 then [CHR 0x5C, CHR ''b'']
      else if n = 9 then [CHR 0x5C, CHR ''t'']
      else if n = 10 then [CHR 0x5C, CHR ''n'']
      else if n = 12 then [CHR 0x5C, CHR ''f'']
      else if n = 13 then [CHR 0x5C, CHR ''r'']
      else if n < 32 then
        [CHR 0x5C, CHR ''u'', CHR ''0'', CHR ''0'', digit_chars ! (n div 16), digit_chars ! (n mod 16)]
      else [c])"

definition json_quote :: "string \<Rightarrow> string" where
  "json_quote s = CHR 0x22 # concat (map json_escape_char s) @ [CHR 0x22]"

fun json_value :: "jsval \<Rightarrow> string option" where
  "json_value Undefined = None"
| "json_value Null = Some ''null''"
| "json_value (Bool b) = Some (if b then ''true'' else ''false'')"
| "json_value (Num (Fin a)) = Some (NumberToString (Fin a))"
| "json_value (Num n) = Some ''null''"
| "json_value (Str s) = Some (json_quote s)"

definition json_member :: "string \<times> jsval \<Rightarrow> string list" where
  "json_member p =
     (case json_value (snd p) of None \<Rightarrow> [] | Some t \<Rightarrow> [json_quote (fst p) @ '':'' @ t])"

definition json_stringify :: "jsobject \<Rightarrow> string" where
  "json_stringify item =
     ''{'' @ js_join '','' (concat (map json_member (object_entries item))) @ ''}''"

section \<open>The cleaning pipeline\<close>

subsection \<open>The store\<close>

text \<open>
  \<^verbatim>\<open>cleanData\<close> (index.js) receives a reference to the caller's array, whose elements
  are references to the caller's records, and two of its stages write through these
  references. The store holds the objects and the arrays, each addressed by its position;
  a new object or array is put at the end. A table is an array of records, or a value
  that is no array; the branches of the stages for array elements that are no records
  (texts, numbers, null) are not modelled.
\<close>

record heap =
  objs :: "jsobject list"
  arrs :: "nat list list"

datatype table = Scalar jsval | Rows nat

definition obj_at :: "heap \<Rightarrow> nat \<Rightarrow> jsobject" where
  "obj_at h i = (if i < length (objs h) then objs h ! i else [])"

definition arr_at :: "heap \<Rightarrow> nat \<Rightarrow> nat list" where
  "arr_at h a = (if a < length (arrs h) then arrs h ! a else [])"

definition new_array :: "heap \<Rightarrow> nat list \<Rightarrow> heap \<times> nat" where
  "new_array h xs = (h\<lparr>arrs := arrs h @ [xs]\<rparr>, length (arrs h))"

text \<open>
  \<^verbatim>\<open>cleaned.map(item => { const result = {}; ...; return result; })\<close>: a new array
  of new objects, one for each item, computed from the item.
\<close>

definition map_new :: "(jsobject \<Rightarrow> jsobject) \<Rightarrow> heap \<Rightarrow> nat \<Rightarrow> heap \<times> nat" where
  "map_new f h a =
     new_array (h\<lparr>objs := objs h @ map (\<lambda>i. f (obj_at h i)) (arr_at h a)\<rparr>)
       [length (objs h) ..< length (objs h) + length (arr_at h a)]"

text \<open>The records of a table, in order, as a caller reading the array sees them.\<close>

definition rows_of :: "heap \<Rightarrow> table \<Rightarrow> jsobject list" where
  "rows_of h t = (case t of Scalar v \<Rightarrow> [] | Rows a \<Rightarrow> map (obj_at h) (arr_at h a))"

subsection \<open>Options\<close>

text \<open>
  The options object as the \<^verbatim>\<open>clean\<close> command builds it. A filter expression with
  three parts between colons becomes an object, any other stays the text it was; likewise
  a transform expression with at least two parts. The sort option is what the caller put
  there: a text, or an object with a column and maybe an order.
\<close>

datatype filter_option = FilterText string | FilterSpec string string string

datatype transform_option = TransformText string | TransformSpec string string

datatype sort_option = SortText string | SortSpec string "string option"

record options =
  opt_removeEmpty :: bool
  opt_deduplicate :: bool
  opt_key :: "string option"
  opt_trim :: bool
  opt_case :: "string option"
  opt_columns :: "string list option"
  opt_filter :: "filter_option option"
  opt_transform :: "transform_option option"
  opt_sort :: "sort_option option"
  opt_limit :: "int option"

definition parse_filter :: "string \<Rightarrow> filter_option" where
  "parse_filter expr =
     (let parts = js_split expr '':'' in
      if length parts = 3 then FilterSpec (parts ! 0) (parts ! 1) (parts ! 2) else FilterText expr)"

definition parse_transform :: "string \<Rightarrow> transform_option" where
  "parse_transform expr =
     (let parts = js_split expr '':'' in
      if length parts \<ge> 2 then TransformSpec (parts ! 0) (parts ! 1) else TransformText expr)"

definition no_options :: options where
  "no_options = \<lparr>opt_removeEmpty = False, opt_deduplicate = False, opt_key = None,
     opt_trim = False, opt_case = None, opt_columns = None, opt_filter = None,
     opt_transform = None, opt_sort = None, opt_limit = None\<rparr>"

text \<open>An option holding a text is taken as given when the text is not empty.\<close>

definition given :: "string option \<Rightarrow> bool" where
  "given s = (s \<noteq> None \<and> s \<noteq> Some [])"

type_synonym state = "heap \<times> table"

text \<open>Every stage is guarded by \<^verbatim>\<open>Array.isArray(cleaned)\<close>.\<close>

definition on_array :: "(heap \<Rightarrow> nat \<Rightarrow> heap \<times> nat) \<Rightarrow> state \<Rightarrow> state" where
  "on_array f s =
     (case snd s of Scalar v \<Rightarrow> s | Rows a \<Rightarrow> (fst (f (fst s) a), Rows (snd (f (fst s) a))))"

subsection \<open>Stages 1 to 5: empty rows, duplicates, trim, case, columns\<close>

definition keep_nonempty :: "jsobject \<Rightarrow> bool" where
  "keep_nonempty item = list_ex (\<lambda>v. v \<noteq> Null \<and> v \<noteq> Undefined \<and> v \<noteq> Str []) (map snd item)"

definition stage_removeEmpty :: "options \<Rightarrow> state \<Rightarrow> state" where
  "stage_removeEmpty opts s =
     (if opt_removeEmpty opts
      then on_array (\<lambda>h a. new_array h (filter (\<lambda>i. keep_nonempty (obj_at h i)) (arr_at h a))) s
      else s)"

definition dedup_key :: "string option \<Rightarrow> jsobject \<Rightarrow> jsval" where
  "dedup_key k item = (if given k then get_prop item (the k) else Str (json_stringify item))"

fun dedup_items :: "(nat \<Rightarrow> jsval) \<Rightarrow> jsval list \<Rightarrow> nat list \<Rightarrow> nat list" where
  "dedup_items keyf seen [] = []"
| "dedup_items keyf seen (i # is) =
     (if keyf i \<in> set seen then dedup_items keyf seen is
      else i # dedup_items keyf (keyf i # seen) is)"

definition stage_deduplicate :: "options \<Rightarrow> state \<Rightarrow> state" where
  "stage_deduplicate opts s =
     (if opt_deduplicate opts
      then on_array (\<lambda>h a. new_array h
             (dedup_items (\<lambda>i. dedup_key (opt_key opts) (obj_at h i)) [] (arr_at h a))) s
      else s)"

text \<open>
  The three stages that copy: each builds a new object \<^verbatim>\<open>result\<close> for every item and
  fills it from the item's entries. A value for which the function gives None is not
  assigned.
\<close>

definition rebuild :: "(jsval \<Rightarrow> jsval option) \<Rightarrow> jsobject \<Rightarrow> jsobject" where
  "rebuild f item =
     fold (\<lambda>p res. case f (snd p) of None \<Rightarrow> res | Some w \<Rightarrow> set_prop res (fst p) w)
       (object_entries item) []"

fun trim_value :: "jsval \<Rightarrow> jsval option" where
  "trim_value (Str s) = Some (Str (js_trim s))"
| "trim_value v = Some v"

definition stage_trim :: "options \<Rightarrow> state \<Rightarrow> state" where
  "stage_trim opts s = (if opt_trim opts then on_array (map_new (rebuild trim_value)) s else s)"

text \<open>
  Title case, \<^verbatim>\<open>value.replace(/\w\S*/g, ...)\<close>: a match starts at a word character
  and runs up to the next white space; its first character is put in upper case and the
  rest in lower case. The flag says whether a match is under way.
\<close>

fun title_go :: "bool \<Rightarrow> string \<Rightarrow> string" where
  "title_go m [] = []"
| "title_go True (c # cs) =
     (if is_space c then c # title_go False cs else lower_char c # title_go True cs)"
| "title_go False (c # cs) =
     (if is_word c then upper_char c # title_go True cs else c # title_go False cs)"

text \<open>A text field under a case name that the switch does not list is not assigned.\<close>

fun case_value :: "string \<Rightarrow> jsval \<Rightarrow> jsval option" where
  "case_value c (Str s) =
     (if c = ''upper'' then Some (Str (toUpperCase s))
      else if c = ''lower'' then Some (Str (toLowerCase s))
      else if c = ''title'' then Some (Str (title_go False s))
      else None)"
| "case_value c v = Some v"

definition stage_case :: "options \<Rightarrow> state \<Rightarrow> state" where
  "stage_case opts s =
     (if given (opt_case opts)
      then on_array (map_new (rebuild (case_value (the (opt_case opts))))) s else s)"

definition project_record :: "string list \<Rightarrow> jsobject \<Rightarrow> jsobject" where
  "project_record cols item =
     fold (\<lambda>col res. if map_of item col \<noteq> None then set_prop res col (get_prop item col) else res)
       cols []"

definition stage_columns :: "options \<Rightarrow> state \<Rightarrow> state" where
  "stage_columns opts s =
     (case opt_columns opts of
        None \<Rightarrow> s
      | Some cols \<Rightarrow> on_array (map_new (project_record cols)) s)"

subsection \<open>Stage 6: filter\<close>

text \<open>
  The test of one item. The regular expressions of the runtime are a parameter \<open>rx\<close>:
  \<open>rx p\<close> is None when \<^verbatim>\<open>new RegExp(p)\<close> throws, and else the test of a text
  against the pattern. An operator that the switch does not list keeps the item.
\<close>

definition filter_test ::
    "(string \<Rightarrow> (string \<Rightarrow> bool) option) \<Rightarrow> string \<Rightarrow> string \<Rightarrow> string \<Rightarrow> jsobject \<Rightarrow> error + bool" where
  "filter_test rx column operator value item =
     (let itemValue = get_prop item column in
      if operator = ''eq'' then Inr (loose_eq itemValue (Str value))
      else if operator = ''neq'' then Inr (\<not> loose_eq itemValue (Str value))
      else if operator = ''gt'' then Inr (js_greater itemValue (Str value))
      else if operator = ''lt'' then Inr (js_less itemValue (Str value))
      else if operator = ''gte'' then Inr (js_greater_eq itemValue (Str value))
      else if operator = ''lte'' then Inr (js_less_eq itemValue (Str value))
      else if operator = ''contains'' then Inr (js_includes (ToString itemValue) value)
      else if operator = ''startsWith'' then Inr (startsWith (ToString itemValue) value)
      else if operator = ''endsWith'' then Inr (endsWith (ToString itemValue) value)
      else if operator = ''regex'' then
        (case rx value of None \<Rightarrow> Inl SyntaxError | Some m \<Rightarrow> Inr (m (ToString itemValue)))
      else Inr True)"

text \<open>
  A filter option that is still a text has no \<^verbatim>\<open>column\<close>, \<^verbatim>\<open>operator\<close> or
  \<^verbatim>\<open>value\<close>: the three are \<^verbatim>\<open>undefined\<close>, and the switch takes its default.
\<close>

fun filter_pred ::
    "(string \<Rightarrow> (string \<Rightarrow> bool) option) \<Rightarrow> filter_option \<Rightarrow> jsobject \<Rightarrow> error + bool" where
  "filter_pred rx (FilterSpec column operator value) item = filter_test rx column operator value item"
| "filter_pred rx (FilterText t) item = Inr True"

text \<open>\<^verbatim>\<open>cleaned.filter(...)\<close>, given up at the first item whose test throws.\<close>

fun filter_items :: "(jsobject \<Rightarrow> error + bool) \<Rightarrow> heap \<Rightarrow> nat list \<Rightarrow> error + nat list" where
  "filter_items p h [] = Inr []"
| "filter_items p h (i # is) =
     (case p (obj_at h i) of
        Inl e \<Rightarrow> Inl e
      | Inr b \<Rightarrow> (case filter_items p h is of
                   Inl e \<Rightarrow> Inl e
                 | Inr js \<Rightarrow> Inr (if b then i # js else js)))"

fun filter_given :: "filter_option option \<Rightarrow> bool" where
  "filter_given None = False"
| "filter_given (Some (FilterText t)) = (t \<noteq> [])"
| "filter_given (Some (FilterSpec c operator v)) = True"

definition stage_filter ::
    "(string \<Rightarrow> (string \<Rightarrow> bool) option) \<Rightarrow> options \<Rightarrow> state \<Rightarrow> error + state" where
  "stage_filter rx opts s =
     (if filter_given (opt_filter opts) then
        (case snd s of
           Scalar v \<Rightarrow> Inr s
         | Rows a \<Rightarrow>
             (case filter_items (filter_pred rx (the (opt_filter opts))) (fst s) (arr_at (fst s) a) of
                Inl e \<Rightarrow> Inl e
              | Inr js \<Rightarrow> Inr (fst (new_array (fst s) js), Rows (snd (new_array (fst s) js)))))
      else Inr s)"

subsection \<open>Stage 7: field transform\<close>

text \<open>
  The new value of the field, or None when no branch of the switch assigns one.
  \<^verbatim>\<open>replace:from,to\<close> cuts the text at every \<open>from\<close> and joins the pieces with
  \<open>to\<close>; without a comma \<open>to\<close> is \<^verbatim>\<open>undefined\<close>, for which \<^verbatim>\<open>join\<close> takes
  a comma.
\<close>

definition transform_value :: "string \<Rightarrow> jsval \<Rightarrow> jsval option" where
  "transform_value transformFn v =
     (if transformFn = ''uppercase'' then Some (Str (toUpperCase (ToString v)))
      else if transformFn = ''lowercase'' then Some (Str (toLowerCase (ToString v)))
      else if transformFn = ''capitalize'' then
        Some (Str (toUpperCase (take 1 (ToString v)) @ toLowerCase (drop 1 (ToString v))))
      else if transformFn = ''trim'' then Some (Str (js_trim (ToString v)))
      else if transformFn = ''number'' then Some (Num (ToNumber v))
      else if transformFn = ''string'' then Some (Str (ToString v))
      else if startsWith transformFn ''replace:'' then
        (let args = js_split (js_split transformFn '':'' ! 1) '','';
             from = args ! 0;
             to = (if 1 < length args then args ! 1 else '','')
         in Some (Str (js_join to (js_split (ToString v) from))))
      else if startsWith transformFn ''multiply:'' then
        Some (Num (num_mul (ToNumber v) (StringToNumber (js_split transformFn '':'' ! 1))))
      else if startsWith transformFn ''divide:'' then
        Some (Num (num_div (ToNumber v) (StringToNumber (js_split transformFn '':'' ! 1))))
      else None)"

text \<open>
  The body of the \<^verbatim>\<open>map\<close> callback: it assigns to \<^verbatim>\<open>item[column]\<close>, that is to the
  object the array element refers to, and returns the same reference.
\<close>

definition transform_item :: "string \<Rightarrow> string \<Rightarrow> heap \<Rightarrow> nat \<Rightarrow> heap" where
  "transform_item column transformFn h i =
     (if column \<noteq> [] \<and> get_prop (obj_at h i) column \<noteq> Undefined then
        (case transform_value transformFn (get_prop (obj_at h i) column) of
           None \<Rightarrow> h
         | Some w \<Rightarrow> h\<lparr>objs := (objs h)[i := set_prop (obj_at h i) column w]\<rparr>)
      else h)"

fun transform_given :: "transform_option option \<Rightarrow> bool" where
  "transform_given None = False"
| "transform_given (Some (TransformText t)) = (t \<noteq> [])"
| "transform_given (Some (TransformSpec c f)) = True"

text \<open>
  A transform option that is still a text has no \<^verbatim>\<open>column\<close>: no item is touched.
  Either way \<^verbatim>\<open>map\<close> returns a new array holding the same references.
\<close>

fun transform_items :: "transform_option \<Rightarrow> heap \<Rightarrow> nat list \<Rightarrow> heap" where
  "transform_items (TransformSpec column transformFn) h is = fold (\<lambda>i h'. transform_item column transformFn h' i) is h"
| "transform_items (TransformText t) h is = h"

definition stage_transform :: "options \<Rightarrow> state \<Rightarrow> state" where
  "stage_transform opts s =
     (if transform_given (opt_transform opts)
      then on_array (\<lambda>h a. new_array (transform_items (the (opt_transform opts)) h (arr_at h a)) (arr_at h a)) s
      else s)"

subsection \<open>Stage 8: sort\<close>

text \<open>
  \<^verbatim>\<open>Array.prototype.sort\<close> with a comparison function is stable. For a consistent
  comparison the outcome is the one stable arrangement, which insertion from the right
  computes; for an inconsistent one the engine is free, and the model stays with the
  insertion. The argument \<open>gt x y\<close> says that the comparison of \<open>x\<close> with \<open>y\<close> is
  positive: \<open>x\<close> goes behind \<open>y\<close>.
\<close>

fun insert_by :: "('a \<Rightarrow> 'a \<Rightarrow> bool) \<Rightarrow> 'a \<Rightarrow> 'a list \<Rightarrow> 'a list" where
  "insert_by gt x [] = [x]"
| "insert_by gt x (y # ys) = (if gt x y then y # insert_by gt x ys else x # y # ys)"

definition sort_by :: "('a \<Rightarrow> 'a \<Rightarrow> bool) \<Rightarrow> 'a list \<Rightarrow> 'a list" where
  "sort_by gt xs = foldr (insert_by gt) xs []"

definition sort_compare :: "string \<Rightarrow> string \<Rightarrow> jsobject \<Rightarrow> jsobject \<Rightarrow> int" where
  "sort_compare column order a b =
     (let aVal = get_prop a column; bVal = get_prop b column in
      if js_less aVal bVal then (if order = ''asc'' then - 1 else 1)
      else if js_greater aVal bVal then (if order = ''asc'' then 1 else - 1)
      else 0)"

text \<open>
  \<^verbatim>\<open>const { column, order = 'asc' } = options.sort\<close>: a sort option that is a text has
  neither property, so the column is \<^verbatim>\<open>undefined\<close> (read as the field of that name)
  and the order is the default.
\<close>

fun sort_column :: "sort_option \<Rightarrow> string" where
  "sort_column (SortSpec column order) = column"
| "sort_column (SortText t) = ''undefined''"

fun sort_order :: "sort_option \<Rightarrow> string" where
  "sort_order (SortSpec column (Some order)) = order"
| "sort_order so = ''asc''"

fun sort_given :: "sort_option option \<Rightarrow> bool" where
  "sort_given None = False"
| "sort_given (Some (SortText t)) = (t \<noteq> [])"
| "sort_given (Some (SortSpec c ord)) = True"

text \<open>
  \<^verbatim>\<open>cleaned = cleaned.sort(...)\<close>: the array is sorted where it stands, and the
  reference stays the same.
\<close>

definition sort_in_place :: "sort_option \<Rightarrow> heap \<Rightarrow> nat \<Rightarrow> heap \<times> nat" where
  "sort_in_place so h a =
     (h\<lparr>arrs := (arrs h)[a := sort_by (\<lambda>i j. 0 < sort_compare (sort_column so) (sort_order so) (obj_at h i) (obj_at h j)) (arr_at h a)]\<rparr>, a)"

definition stage_sort :: "options \<Rightarrow> state \<Rightarrow> state" where
  "stage_sort opts s =
     (if sort_given (opt_sort opts) then on_array (sort_in_place (the (opt_sort opts))) s else s)"

subsection \<open>Stage 9: limit\<close>

text \<open>\<^verbatim>\<open>xs.slice(0, n)\<close>: a negative \<open>n\<close> counts from the end.\<close>

definition slice0 :: "'a list \<Rightarrow> int \<Rightarrow> 'a list" where
  "slice0 xs n = (if n < 0 then take (nat (int (length xs) + n)) xs else take (nat n) xs)"

text \<open>\<^verbatim>\<open>if (options.limit)\<close>: the number 0 is falsy, like a missing option.\<close>

definition limit_given :: "int option \<Rightarrow> bool" where
  "limit_given l = (l \<noteq> None \<and> l \<noteq> Some 0)"

definition stage_limit :: "options \<Rightarrow> state \<Rightarrow> state" where
  "stage_limit opts s =
     (if limit_given (opt_limit opts)
      then on_array (\<lambda>h a. new_array h (slice0 (arr_at h a) (the (opt_limit opts)))) s
      else s)"

subsection \<open>The pipeline\<close>

definition cleanData ::
    "(string \<Rightarrow> (string \<Rightarrow> bool) option) \<Rightarrow> heap \<Rightarrow> table \<Rightarrow> options \<Rightarrow> error + state" where
  "cleanData rx h data opts =
     (case stage_filter rx opts
             (stage_columns opts (stage_case opts (stage_trim opts
                (stage_deduplicate opts (stage_removeEmpty opts (h, data)))))) of
        Inl e \<Rightarrow> Inl e
      | Inr s \<Rightarrow> Inr (stage_limit opts (stage_sort opts (stage_transform opts s))))"

section \<open>Grouping, aggregation and the pivot table\<close>

text \<open>
  The functions of the grouping module read their records and never write to them, so
  they are modelled on the records themselves. The objects they build are lists of
  properties in insertion order; the texts that serve as property names there (group
  keys, row and column keys) are taken, like field names, to be none of the members of
  \<^verbatim>\<open>Object.prototype\<close>.
\<close>

subsection \<open>\<^verbatim>\<open>groupByMultiple\<close>\<close>

definition key_part :: "jsobject \<Rightarrow> string \<Rightarrow> string" where
  "key_part item field =
     (let v = get_prop item field in
      if v \<noteq> Undefined \<and> v \<noteq> Null then ToString v else ''__null__'')"

definition group_key :: "string list \<Rightarrow> jsobject \<Rightarrow> string" where
  "group_key groupByFields item = js_join ''|'' (map (key_part item) groupByFields)"

text \<open>
  \<^verbatim>\<open>if (groups[key] === undefined) groups[key] = []; groups[key].push(item)\<close>
\<close>

definition push_to :: "(string \<times> 'a list) list \<Rightarrow> string \<Rightarrow> 'a \<Rightarrow> (string \<times> 'a list) list" where
  "push_to groups key x =
     (case map_of groups key of
        None \<Rightarrow> set_prop groups key [x]
      | Some g \<Rightarrow> set_prop groups key (g @ [x]))"

definition groupByMultiple :: "jsobject list \<Rightarrow> string list \<Rightarrow> (string \<times> jsobject list) list" where
  "groupByMultiple data groupByFields =
     fold (\<lambda>item groups. push_to groups (group_key groupByFields item) item) data []"

subsection \<open>\<^verbatim>\<open>calculatePercentile\<close>\<close>

text \<open>
  \<^verbatim>\<open>sorted[i]\<close> inside a product: an index that is no position of the array reads
  \<^verbatim>\<open>undefined\<close>, which the multiplication turns into NaN.
\<close>

fun num_at :: "jsnum list \<Rightarrow> jsnum \<Rightarrow> jsnum" where
  "num_at xs (Fin i) =
     (if i = of_int \<lfloor>i\<rfloor> \<and> 0 \<le> i \<and> nat \<lfloor>i\<rfloor> < length xs then xs ! nat \<lfloor>i\<rfloor> else NaN)"
| "num_at xs i = NaN"

definition calculatePercentile :: "jsnum list \<Rightarrow> jsnum \<Rightarrow> jsnum" where
  "calculatePercentile values percentile =
     (if length values = 0 then Fin 0
      else
        let sorted = sort_by (\<lambda>a b. num_less (Fin 0) (num_sub a b)) values;
            index = num_mul (num_div percentile (Fin 100)) (Fin (of_nat (length sorted) - 1));
            lower = num_floor index;
            upper = num_ceil index;
            weight = num_sub index lower
        in if num_ge upper (Fin (of_nat (length sorted)))
           then sorted ! (length sorted - 1)
           else num_add (num_mul (num_at sorted lower) (num_sub (Fin 1) weight))
                        (num_mul (num_at sorted upper) weight))"

subsection \<open>\<^verbatim>\<open>aggregateGroup\<close>\<close>

text \<open>An aggregated field holds a value or, for the kind \<^verbatim>\<open>array\<close>, a list of values.\<close>

datatype aggval = Val jsval | Vals "jsval list"

definition sum_values :: "jsval list \<Rightarrow> jsnum" where
  "sum_values values = fold (\<lambda>v sum. num_add sum (num_or (ToNumber v) (Fin 0))) values (Fin 0)"

text \<open>
  The switch over the kind; None when no branch assigns \<^verbatim>\<open>result[fieldName]\<close>.
\<close>

definition aggregate_values :: "string \<Rightarrow> jsval list \<Rightarrow> aggval option" where
  "aggregate_values aggType values =
     (if aggType = ''sum'' then Some (Val (Num (sum_values values)))
      else if aggType = ''avg'' then
        Some (Val (Num (if length values > 0
                        then num_div (sum_values values) (Fin (of_nat (length values)))
                        else Fin 0)))
      else if aggType = ''min'' then
        Some (Val (Num (math_min (map (\<lambda>v. num_or (ToNumber v) PosInf) values))))
      else if aggType = ''max'' then
        Some (Val (Num (math_max (map (\<lambda>v. num_or (ToNumber v) NegInf) values))))
      else if aggType = ''count'' then Some (Val (Num (Fin (of_nat (length values)))))
      else if aggType = ''count_distinct'' then
        Some (Val (Num (Fin (of_nat (length (remdups values))))))
      else if aggType = ''first'' then Some (Val (case values of [] \<Rightarrow> Undefined | v # vs \<Rightarrow> v))
      else if aggType = ''last'' then Some (Val (if values = [] then Undefined else last values))
      else if aggType = ''concat'' then Some (Val (Str (js_join '', '' (map ToString values))))
      else if aggType = ''array'' then Some (Vals values)
      else if startsWith aggType ''percentile:'' then
        Some (Val (Num (calculatePercentile (map ToNumber values)
                          (parseInt (js_split aggType '':'' ! 1)))))
      else None)"

definition field_values :: "jsobject list \<Rightarrow> string \<Rightarrow> jsval list" where
  "field_values grp fieldName =
     filter (\<lambda>v. v \<noteq> Null \<and> v \<noteq> Undefined \<and> v \<noteq> Str [])
       (map (\<lambda>item. get_prop item fieldName) grp)"

definition aggregateGroup :: "jsobject list \<Rightarrow> (string \<times> string) list \<Rightarrow> (string \<times> aggval) list" where
  "aggregateGroup grp aggregations =
     fold (\<lambda>p result.
             case aggregate_values (snd p) (field_values grp (fst p)) of
               None \<Rightarrow> result
             | Some v \<Rightarrow> set_prop result (fst p) v)
       (object_entries aggregations) []"

subsection \<open>\<^verbatim>\<open>groupAndAggregate\<close>\<close>

definition group_field :: "string list \<Rightarrow> nat \<Rightarrow> aggval" where
  "group_field keyParts index =
     (if index < length keyParts
      then (if keyParts ! index = ''__null__'' then Val Null else Val (Str (keyParts ! index)))
      else Val Undefined)"

definition group_row ::
    "string list \<Rightarrow> (string \<times> string) list \<Rightarrow> string \<times> jsobject list \<Rightarrow> (string \<times> aggval) list" where
  "group_row groupByFields aggregations entry =
     (let key = fst entry; grp = snd entry;
          keyParts = js_split key ''|'';
          groupResult = [(''_group'', Val (Str key)), (''_count'', Val (Num (Fin (of_nat (length grp)))))];
          withFields = fold (\<lambda>p res. set_prop res (fst p) (group_field keyParts (snd p)))
                         (zip groupByFields [0 ..< length groupByFields]) groupResult
      in fold (\<lambda>p res. set_prop res (fst p) (snd p))
           (object_entries (aggregateGroup grp aggregations)) withFields)"

definition groupAndAggregate ::
    "jsobject list \<Rightarrow> string list \<Rightarrow> (string \<times> string) list \<Rightarrow> (string \<times> aggval) list list" where
  "groupAndAggregate data groupByFields aggregations =
     map (group_row groupByFields aggregations)
       (object_entries (groupByMultiple data groupByFields))"

subsection \<open>\<^verbatim>\<open>pivotTable\<close>\<close>

definition pivot_key :: "jsval \<Rightarrow> jsval \<Rightarrow> string" where
  "pivot_key rowKey colKey = ToString rowKey @ ''::'' @ ToString colKey"

text \<open>\<^verbatim>\<open>set.add(x)\<close> on a set kept in insertion order.\<close>

definition set_add :: "'a list \<Rightarrow> 'a \<Rightarrow> 'a list" where
  "set_add xs x = (if x \<in> set xs then xs else xs @ [x])"

text \<open>The first loop: the row keys, the column keys and the values of each pair.\<close>

definition pivot_collect ::
    "string \<Rightarrow> string \<Rightarrow> string \<Rightarrow> jsobject \<Rightarrow>
     jsval list \<times> jsval list \<times> (string \<times> jsnum list) list \<Rightarrow>
     jsval list \<times> jsval list \<times> (string \<times> jsnum list) list" where
  "pivot_collect rowField columnField valueField item st =
     (let rowKey = get_prop item rowField;
          colKey = get_prop item columnField;
          val = num_or (ToNumber (get_prop item valueField)) (Fin 0)
      in (set_add (fst st) rowKey, set_add (fst (snd st)) colKey,
          push_to (snd (snd st)) (pivot_key rowKey colKey) val))"

definition pivot_aggregate :: "string \<Rightarrow> jsnum list \<Rightarrow> jsnum" where
  "pivot_aggregate aggFunction vals =
     (if aggFunction = ''sum'' then fold (\<lambda>v sum. num_add sum v) vals (Fin 0)
      else if aggFunction = ''avg'' then
        (if length vals > 0
         then num_div (fold (\<lambda>v sum. num_add sum v) vals (Fin 0)) (Fin (of_nat (length vals)))
         else Fin 0)
      else if aggFunction = ''count'' then Fin (of_nat (length vals))
      else if aggFunction = ''min'' then (if length vals > 0 then math_min vals else Fin 0)
      else if aggFunction = ''max'' then (if length vals > 0 then math_max vals else Fin 0)
      else fold (\<lambda>v sum. num_add sum v) vals (Fin 0))"

text \<open>
  The second loop. \<^verbatim>\<open>values[key] || []\<close> is the empty list for a pair without values.
\<close>

definition pivot_cell :: "(string \<times> jsnum list) list \<Rightarrow> string \<Rightarrow> jsval \<Rightarrow> jsval \<Rightarrow> jsnum" where
  "pivot_cell values aggFunction row col =
     pivot_aggregate aggFunction
       (case map_of values (pivot_key row col) of None \<Rightarrow> [] | Some vals \<Rightarrow> vals)"

definition pivot_row ::
    "(string \<times> jsnum list) list \<Rightarrow> string \<Rightarrow> jsval list \<Rightarrow> jsval \<Rightarrow> (string \<times> jsnum) list" where
  "pivot_row values aggFunction columns row =
     fold (\<lambda>col inner. set_prop inner (ToString col) (pivot_cell values aggFunction row col))
       columns []"

text \<open>
  \<^verbatim>\<open>Array.from(rows).sort()\<close>: without a comparison function the elements are ordered
  by their texts, and \<^verbatim>\<open>undefined\<close> goes last.
\<close>

definition default_gt :: "jsval \<Rightarrow> jsval \<Rightarrow> bool" where
  "default_gt x y =
     (if x = Undefined then y \<noteq> Undefined
      else y \<noteq> Undefined \<and> str_less (ToString y) (ToString x))"

record pivot =
  pivot_rows :: "jsval list"
  pivot_columns :: "jsval list"
  pivot_data :: "(string \<times> (string \<times> jsnum) list) list"

definition pivotTable :: "jsobject list \<Rightarrow> string \<Rightarrow> string \<Rightarrow> string \<Rightarrow> string \<Rightarrow> pivot" where
  "pivotTable data rowField columnField valueField aggFunction =
     (let st = fold (pivot_collect rowField columnField valueField) data ([], [], []);
          rows = fst st; columns = fst (snd st); values = snd (snd st);
          pivot = fold (\<lambda>row pivot. set_prop pivot (ToString row)
                          (pivot_row values aggFunction columns row)) rows []
      in \<lparr>pivot_rows = sort_by default_gt rows,
          pivot_columns = sort_by default_gt columns,
          pivot_data = pivot\<rparr>)"

text \<open>\<^verbatim>\<open>result.data[row][col]\<close>, None when the row or the cell is missing.\<close>

definition pivot_lookup :: "pivot \<Rightarrow> jsval \<Rightarrow> jsval \<Rightarrow> jsnum option" where
  "pivot_lookup p row col =
     (case map_of (pivot_data p) (ToString row) of
        None \<Rightarrow> None
      | Some inner \<Rightarrow> map_of inner (ToString col))"

section \<open>Notions used in the properties\<close>

text \<open>The operators that the switch of the filter stage lists.\<close>

definition filter_operators :: "string list" where
  "filter_operators = [''eq'', ''neq'', ''gt'', ''lt'', ''gte'', ''lte'', ''contains'',
     ''startsWith'', ''endsWith'', ''regex'']"

text \<open>A transform kind that no case and no prefix test of the transform stage takes.\<close>

definition unknown_transform :: "string \<Rightarrow> bool" where
  "unknown_transform transformFn =
     (transformFn \<notin> set [''uppercase'', ''lowercase'', ''capitalize'', ''trim'', ''number'', ''string''] \<and>
      \<not> startsWith transformFn ''replace:'' \<and> \<not> startsWith transformFn ''multiply:'' \<and>
      \<not> startsWith transformFn ''divide:'')"

text \<open>An aggregation kind that no case of \<^verbatim>\<open>aggregateGroup\<close> takes.\<close>

definition unknown_aggregation :: "string \<Rightarrow> bool" where
  "unknown_aggregation aggType =
     (aggType \<notin> set [''sum'', ''avg'', ''min'', ''max'', ''count'', ''count_distinct'', ''first'',
        ''last'', ''concat'', ''array''] \<and>
      \<not> startsWith aggType ''percentile:'')"








text \<open>A cell of the pivot table as a function of the texts of its row and column keys.\<close>

definition cell_of :: "(string \<times> jsnum list) list \<Rightarrow> string \<Rightarrow> string \<Rightarrow> string \<Rightarrow> jsnum" where
  "cell_of values aggFunction rt ct =
     pivot_aggregate aggFunction
       (case map_of values (rt @ ''::'' @ ct) of None \<Rightarrow> [] | Some vals \<Rightarrow> vals)"

section \<open>Lemmas on lists, objects and the store\<close>

lemma map_of_set_prop:
  "map_of (set_prop r f v) g = (if g = f then Some v else map_of r g)"
  by (induction r f v rule: set_prop.induct) auto

lemma map_of_fold_set_prop:
  "map_of (fold (\<lambda>x acc. set_prop acc (k x) (g (k x))) xs acc) key =
     (if key \<in> k ` set xs then Some (g key) else map_of acc key)"
  by (induction xs arbitrary: acc) (auto simp: map_of_set_prop)

lemma map_of_push_to:
  "map_of (push_to g k x) key =
     (if key = k then Some ((case map_of g k of None \<Rightarrow> [] | Some ms \<Rightarrow> ms) @ [x])
      else map_of g key)"
  by (simp add: push_to_def map_of_set_prop split: option.split)

lemma set_object_entries: "set (object_entries r) = set r"
  by (auto simp: object_entries_def)

lemma set_insert_by: "set (insert_by gt x ys) = insert x (set ys)"
  by (induction ys) auto

lemma set_sort_by: "set (sort_by gt xs) = set xs"
  by (induction xs) (simp_all add: sort_by_def set_insert_by)




lemma filter_items_all:
  "(\<And>item. p item = Inr True) \<Longrightarrow> filter_items p h is = Inr is"
  by (induction "is") simp_all

lemma get_prop_absent: "map_of item column = None \<Longrightarrow> get_prop item column = Undefined"
  by (simp add: get_prop_def)


section \<open>Properties of the cleaning pipeline\<close>

subsection \<open>The limit stage\<close>

text \<open>
  C1, as the code has it. For a limit \<open>N\<close> of at least 1 the limit stage hands on a new
  array that holds the first \<open>N\<close> references of the array it was given: the records of
  the output are the first \<open>min N (length T)\<close> records of the table \<open>T\<close> that the earlier
  stages left, in the same order, whatever the size of \<open>T\<close>; the stage has no way to
  fail.
\<close>

theorem limit_positive_is_prefix:
  assumes "opt_limit opts = Some N" and "0 < N"
  shows "(let s' = stage_limit opts (h, Rows a);
              out = rows_of (fst s') (snd s');
              T = rows_of h (Rows a)
          in snd s' = Rows (length (arrs h)) \<and>
             arr_at (fst s') (length (arrs h)) = take (nat N) (arr_at h a) \<and>
             objs (fst s') = objs h \<and>
             out = take (nat N) T \<and>
             length out = min (nat N) (length T) \<and>
             prefix out T)"
proof -
  let ?s = "stage_limit opts (h, Rows a)"
  have st: "?s = (fst (new_array h (take (nat N) (arr_at h a))),
                  Rows (snd (new_array h (take (nat N) (arr_at h a)))))"
    using assms by (simp add: stage_limit_def limit_given_def on_array_def slice0_def)
  have addr: "snd ?s = Rows (length (arrs h))"
    by (simp add: st new_array_def)
  have items: "arr_at (fst ?s) (length (arrs h)) = take (nat N) (arr_at h a)"
    by (simp add: st new_array_def arr_at_def)
  have same: "objs (fst ?s) = objs h"
    by (simp add: st new_array_def)
  have rows: "rows_of (fst ?s) (snd ?s) = take (nat N) (rows_of h (Rows a))"
    unfolding addr by (simp add: rows_of_def items take_map) (simp add: obj_at_def same)
  show ?thesis
    unfolding Let_def using addr items same rows by (simp add: take_is_prefix)
qed

text \<open>The limit 2 on a table of three records, held in the order c, a, b.\<close>

theorem limit_positive_is_prefix_witness:
  "opt_limit (no_options\<lparr>opt_limit := Some 2\<rparr>) = Some 2 \<and> (0::int) < 2 \<and>
   rows_of
     (fst (stage_limit (no_options\<lparr>opt_limit := Some 2\<rparr>)
        (\<lparr>objs = [[(''id'', Str ''a'')], [(''id'', Str ''b'')], [(''id'', Str ''c'')]],
          arrs = [[2, 0, 1]]\<rparr>, Rows 0)))
     (snd (stage_limit (no_options\<lparr>opt_limit := Some 2\<rparr>)
        (\<lparr>objs = [[(''id'', Str ''a'')], [(''id'', Str ''b'')], [(''id'', Str ''c'')]],
          arrs = [[2, 0, 1]]\<rparr>, Rows 0)))
   = [[(''id'', Str ''c'')], [(''id'', Str ''a'')]]"
  using limit_positive_is_prefix [of "no_options\<lparr>opt_limit := Some 2\<rparr>" 2
      "\<lparr>objs = [[(''id'', Str ''a'')], [(''id'', Str ''b'')], [(''id'', Str ''c'')]],
        arrs = [[2, 0, 1]]\<rparr>" 0]
  by (simp add: Let_def no_options_def rows_of_def arr_at_def obj_at_def)

text \<open>
  C1 as the specification states it fails at the limit 0: the guard
  \<^verbatim>\<open>if (options.limit)\<close> takes 0 for a missing option, and a table of one record
  comes back with its record.
\<close>

theorem limit_zero_keeps_table:
  "cleanData (\<lambda>p. None) \<lparr>objs = [[(''id'', Num (Fin 1))]], arrs = [[0]]\<rparr> (Rows 0)
     (no_options\<lparr>opt_limit := Some 0\<rparr>)
     = Inr (\<lparr>objs = [[(''id'', Num (Fin 1))]], arrs = [[0]]\<rparr>, Rows 0) \<and>
   rows_of \<lparr>objs = [[(''id'', Num (Fin 1))]], arrs = [[0]]\<rparr> (Rows 0) = [[(''id'', Num (Fin 1))]]"
  by (simp add: cleanData_def no_options_def stage_removeEmpty_def stage_deduplicate_def
      stage_trim_def stage_case_def stage_columns_def stage_filter_def stage_transform_def
      stage_sort_def stage_limit_def given_def limit_given_def rows_of_def arr_at_def obj_at_def)

subsection \<open>The filter stage\<close>

text \<open>
  C3, as the code has it. For a record that lacks the filter's field the field reads
  \<^verbatim>\<open>undefined\<close>. Against every operand (a text) the operators eq, gt, lt, gte and
  lte are false and neq is true. The operators contains, startsWith, endsWith and regex
  first turn the value into the text \<^verbatim>\<open>undefined\<close> and test that text: they are
  true exactly when the operand occurs in it, starts it, ends it or matches it, and regex
  throws when the operand is no regular expression.
\<close>

theorem filter_absent_field:
  assumes "map_of item column = None"
  shows "filter_test rx column ''eq'' value item = Inr False \<and>
         filter_test rx column ''neq'' value item = Inr True \<and>
         filter_test rx column ''gt'' value item = Inr False \<and>
         filter_test rx column ''lt'' value item = Inr False \<and>
         filter_test rx column ''gte'' value item = Inr False \<and>
         filter_test rx column ''lte'' value item = Inr False \<and>
         filter_test rx column ''contains'' value item = Inr (js_includes ''undefined'' value) \<and>
         filter_test rx column ''startsWith'' value item = Inr (startsWith ''undefined'' value) \<and>
         filter_test rx column ''endsWith'' value item = Inr (endsWith ''undefined'' value) \<and>
         filter_test rx column ''regex'' value item =
           (case rx value of None \<Rightarrow> Inl SyntaxError | Some m \<Rightarrow> Inr (m ''undefined''))"
  using assms
  by (simp add: filter_test_def get_prop_absent js_greater_def js_less_def js_greater_eq_def js_less_eq_def split: option.split)

text \<open>A record with a name and no age, under filters on the age.\<close>

theorem filter_absent_field_witness:
  "map_of [(''name'', Str ''Bob'')] ''age'' = None \<and>
   filter_test (\<lambda>p. None) ''age'' ''eq'' ''undefined'' [(''name'', Str ''Bob'')] = Inr False \<and>
   filter_test (\<lambda>p. None) ''age'' ''neq'' ''undefined'' [(''name'', Str ''Bob'')] = Inr True \<and>
   filter_test (\<lambda>p. None) ''age'' ''gt'' ''18'' [(''name'', Str ''Bob'')] = Inr False \<and>
   filter_test (\<lambda>p. None) ''age'' ''lte'' ''18'' [(''name'', Str ''Bob'')] = Inr False \<and>
   filter_test (\<lambda>p. None) ''age'' ''contains'' ''18'' [(''name'', Str ''Bob'')] = Inr False \<and>
   filter_test (\<lambda>p. None) ''age'' ''endsWith'' ''fine'' [(''name'', Str ''Bob'')] = Inr False \<and>
   filter_test (\<lambda>p. None) ''age'' ''regex'' ''('' [(''name'', Str ''Bob'')] = Inl SyntaxError"
  using filter_absent_field [of "[(''name'', Str ''Bob'')]" "''age''" "\<lambda>p. None" "''undefined''"]
        filter_absent_field [of "[(''name'', Str ''Bob'')]" "''age''" "\<lambda>p. None" "''18''"]
        filter_absent_field [of "[(''name'', Str ''Bob'')]" "''age''" "\<lambda>p. None" "''fine''"]
        filter_absent_field [of "[(''name'', Str ''Bob'')]" "''age''" "\<lambda>p. None" "''(''"]
  by (simp add: endsWith_def startsWith_def)

text \<open>
  C3 as the specification states it fails for the operands it names: a record without
  the field \<^verbatim>\<open>age\<close> passes \<^verbatim>\<open>contains\<close> with \<^verbatim>\<open>undef\<close> and with
  \<^verbatim>\<open>fine\<close>, and \<^verbatim>\<open>startsWith\<close> with \<^verbatim>\<open>undef\<close>, and the pipeline keeps it.
\<close>

theorem absent_field_matches_undefined_text:
  "filter_test (\<lambda>p. None) ''age'' ''contains'' ''undef'' [(''name'', Str ''Bob'')] = Inr True \<and>
   filter_test (\<lambda>p. None) ''age'' ''contains'' ''fine'' [(''name'', Str ''Bob'')] = Inr True \<and>
   filter_test (\<lambda>p. None) ''age'' ''startsWith'' ''undef'' [(''name'', Str ''Bob'')] = Inr True \<and>
   cleanData (\<lambda>p. None) \<lparr>objs = [[(''name'', Str ''Bob'')]], arrs = [[0]]\<rparr> (Rows 0)
     (no_options\<lparr>opt_filter := Some (FilterSpec ''age'' ''contains'' ''undef'')\<rparr>)
     = Inr (\<lparr>objs = [[(''name'', Str ''Bob'')]], arrs = [[0], [0]]\<rparr>, Rows 1)"
  by (simp add: filter_test_def get_prop_def startsWith_def
      cleanData_def no_options_def stage_removeEmpty_def stage_deduplicate_def
      stage_trim_def stage_case_def stage_columns_def stage_filter_def stage_transform_def
      stage_sort_def stage_limit_def given_def limit_given_def arr_at_def obj_at_def new_array_def)

text \<open>
  C4 at its own example and at the example of the README (\<^verbatim>\<open>age:gt:18\<close>,
  glossed there as age above 18, on a CSV file, whose fields are all texts). Both sides
  of \<^verbatim>\<open>itemValue > value\<close>
  are texts, so JavaScript compares them character by character: the age \<^verbatim>\<open>"18"\<close>
  is not above \<^verbatim>\<open>"9"\<close>, and the age \<^verbatim>\<open>"9"\<close> is above \<^verbatim>\<open>"18"\<close>. Only a field
  that holds a number is compared as a number.
\<close>

theorem gt_on_two_texts_is_lexicographic:
  "filter_test rx ''age'' ''gt'' ''9'' [(''age'', Str ''18'')] = Inr False \<and>
   filter_test rx ''age'' ''gt'' ''18'' [(''age'', Str ''9'')] = Inr True \<and>
   filter_test rx ''age'' ''gt'' ''9'' [(''age'', Num (Fin 18))] = Inr True"
  by (simp add: filter_test_def get_prop_def js_greater_def StringToNumber_def js_trim_def is_space_def unsigned_decimal_def is_digit_def digit_val_def)

subsection \<open>What the pipeline writes to\<close>





























subsection \<open>Kinds that no switch lists\<close>

lemma unknown_operator_test:
  "operator \<notin> set filter_operators \<Longrightarrow> filter_test rx column operator value item = Inr True"
  by (simp add: filter_operators_def filter_test_def)

lemma unknown_transform_value:
  "unknown_transform transformFn \<Longrightarrow> transform_value transformFn v = None"
  by (simp add: unknown_transform_def transform_value_def)

lemma unknown_transform_item:
  "unknown_transform transformFn \<Longrightarrow> transform_item column transformFn h i = h"
  by (simp add: transform_item_def unknown_transform_value)

lemma unknown_transform_items:
  "unknown_transform transformFn \<Longrightarrow>
   fold (\<lambda>i h'. transform_item column transformFn h' i) is h = h"
  by (induction "is") (simp_all add: unknown_transform_item)

lemma unknown_aggregate_values:
  "unknown_aggregation aggType \<Longrightarrow> aggregate_values aggType values = None"
  by (simp add: unknown_aggregation_def aggregate_values_def)

lemma aggregate_fold_absent:
  assumes "map_of acc key = None"
    and "\<forall>p \<in> set es. fst p = key \<longrightarrow> aggregate_values (snd p) (field_values grp (fst p)) = None"
  shows "map_of (fold (\<lambda>p result.
             case aggregate_values (snd p) (field_values grp (fst p)) of
               None \<Rightarrow> result
             | Some v \<Rightarrow> set_prop result (fst p) v) es acc) key = None"
  using assms
proof (induction es arbitrary: acc)
  case Nil
  then show ?case by simp
next
  case (Cons e es)
  let ?acc = "case aggregate_values (snd e) (field_values grp (fst e)) of
               None \<Rightarrow> acc | Some v \<Rightarrow> set_prop acc (fst e) v"
  have "map_of ?acc key = None"
    using Cons.prems by (cases "fst e = key") (auto simp: map_of_set_prop split: option.splits)
  moreover have "\<forall>p \<in> set es. fst p = key \<longrightarrow> aggregate_values (snd p) (field_values grp (fst p)) = None"
    using Cons.prems(2) by simp
  ultimately have "map_of (fold (\<lambda>p result.
             case aggregate_values (snd p) (field_values grp (fst p)) of
               None \<Rightarrow> result
             | Some v \<Rightarrow> set_prop result (fst p) v) es ?acc) key = None"
    by (rule Cons.IH)
  then show ?case by simp
qed

text \<open>
  C8, as the code has it. No stage raises an error for a kind it does not know. A filter
  whose operator the switch does not list keeps every record (the stage hands on a new
  array of the same references); a transform whose kind is unknown leaves every record
  as it is; and a field whose aggregation kind is unknown is missing from the result of
  \<^verbatim>\<open>aggregateGroup\<close>.
\<close>

theorem unknown_kinds_pass_silently:
  assumes "operator \<notin> set filter_operators"
    and "unknown_transform transformFn"
    and "unknown_aggregation aggType"
    and "opt_filter fopts = Some (FilterSpec column operator value)"
    and "opt_transform topts = Some (TransformSpec tcolumn transformFn)"
    and "\<forall>p \<in> set aggregations. fst p = fieldName \<longrightarrow> snd p = aggType"
  shows "stage_filter rx fopts (h, Rows a)
           = Inr (h\<lparr>arrs := arrs h @ [arr_at h a]\<rparr>, Rows (length (arrs h))) \<and>
         stage_transform topts (h, Rows a)
           = (h\<lparr>arrs := arrs h @ [arr_at h a]\<rparr>, Rows (length (arrs h))) \<and>
         map_of (aggregateGroup grp aggregations) fieldName = None"
proof -
  have f: "filter_items (filter_pred rx (FilterSpec column operator value)) h (arr_at h a) = Inr (arr_at h a)"
    by (rule filter_items_all) (simp add: unknown_operator_test assms(1))
  have c1: "stage_filter rx fopts (h, Rows a)
           = Inr (h\<lparr>arrs := arrs h @ [arr_at h a]\<rparr>, Rows (length (arrs h)))"
    by (simp add: stage_filter_def assms(4) f new_array_def)
  have c2: "stage_transform topts (h, Rows a)
           = (h\<lparr>arrs := arrs h @ [arr_at h a]\<rparr>, Rows (length (arrs h)))"
    by (simp add: stage_transform_def assms(5) on_array_def new_array_def
        unknown_transform_items [OF assms(2)])
  have "\<forall>p \<in> set (object_entries aggregations). fst p = fieldName \<longrightarrow>
          aggregate_values (snd p) (field_values grp (fst p)) = None"
    using assms(6) unknown_aggregate_values [OF assms(3)] by (simp add: set_object_entries)
  then have c3: "map_of (aggregateGroup grp aggregations) fieldName = None"
    unfolding aggregateGroup_def by (intro aggregate_fold_absent) simp_all
  show ?thesis using c1 c2 c3 by blast
qed

text \<open>The operator between, the transform reverse and the aggregation median.\<close>

theorem unknown_kinds_pass_silently_witness:
  "''between'' \<notin> set filter_operators \<and> unknown_transform ''reverse'' \<and> unknown_aggregation ''median'' \<and>
   stage_filter (\<lambda>p. None) (no_options\<lparr>opt_filter := Some (FilterSpec ''age'' ''between'' ''1'')\<rparr>)
        (\<lparr>objs = [[(''age'', Str ''7'')]], arrs = [[0]]\<rparr>, Rows 0)
     = Inr (\<lparr>objs = [[(''age'', Str ''7'')]], arrs = [[0], [0]]\<rparr>, Rows 1) \<and>
   stage_transform (no_options\<lparr>opt_transform := Some (TransformSpec ''age'' ''reverse'')\<rparr>)
        (\<lparr>objs = [[(''age'', Str ''7'')]], arrs = [[0]]\<rparr>, Rows 0)
     = (\<lparr>objs = [[(''age'', Str ''7'')]], arrs = [[0], [0]]\<rparr>, Rows 1) \<and>
   map_of (aggregateGroup [[(''age'', Str ''7'')]] [(''age'', ''median''), (''n'', ''count'')]) ''age'' = None"
proof -
  have a: "''between'' \<notin> set filter_operators" by (simp add: filter_operators_def)
  have b: "unknown_transform ''reverse''" by (simp add: unknown_transform_def startsWith_def)
  have c: "unknown_aggregation ''median''" by (simp add: unknown_aggregation_def startsWith_def)
  have d: "opt_filter (no_options\<lparr>opt_filter := Some (FilterSpec ''age'' ''between'' ''1'')\<rparr>)
             = Some (FilterSpec ''age'' ''between'' ''1'')" by simp
  have e: "opt_transform (no_options\<lparr>opt_transform := Some (TransformSpec ''age'' ''reverse'')\<rparr>)
             = Some (TransformSpec ''age'' ''reverse'')" by simp
  have f: "list_all (\<lambda>p. fst p = ''age'' \<longrightarrow> snd p = ''median'') [(''age'', ''median''), (''n'', ''count'')]"
    by simp
  then have f': "\<forall>p \<in> set [(''age'', ''median''), (''n'', ''count'')]. fst p = ''age'' \<longrightarrow> snd p = ''median''"
    by simp
  show ?thesis
    using unknown_kinds_pass_silently [OF a b c d e f',
        of "\<lambda>p. None" "\<lparr>objs = [[(''age'', Str ''7'')]], arrs = [[0]]\<rparr>" 0 "[[(''age'', Str ''7'')]]"] a b c
    by (simp add: arr_at_def)
qed

text \<open>
  C8 as the specification states it fails: with the operator \<^verbatim>\<open>between\<close> the call
  returns a table, with its record, and not an error; with the kind \<^verbatim>\<open>median\<close> the
  aggregation returns an object without the field.
\<close>

theorem unknown_operator_keeps_all:
  "cleanData (\<lambda>p. None) \<lparr>objs = [[(''age'', Str ''7'')]], arrs = [[0]]\<rparr> (Rows 0)
     (no_options\<lparr>opt_filter := Some (FilterSpec ''age'' ''between'' ''1'')\<rparr>)
     = Inr (\<lparr>objs = [[(''age'', Str ''7'')]], arrs = [[0], [0]]\<rparr>, Rows 1) \<and>
   aggregateGroup [[(''age'', Str ''7'')]] [(''age'', ''median'')] = []"
  by (simp add: cleanData_def no_options_def stage_removeEmpty_def stage_deduplicate_def
      stage_trim_def stage_case_def stage_columns_def stage_filter_def stage_transform_def
      stage_sort_def stage_limit_def given_def limit_given_def arr_at_def obj_at_def
      filter_test_def new_array_def
      aggregateGroup_def object_entries_def is_array_index_def all_digits_def is_digit_def
      aggregate_values_def startsWith_def)

section \<open>Properties of grouping, aggregation and the pivot table\<close>

subsection \<open>Group keys\<close>

text \<open>
  C10. The two records differ in both grouping fields, and both get the key
  \<^verbatim>\<open>a|b|c\<close>: they are one group of two, which \<^verbatim>\<open>groupAndAggregate\<close> reports
  under the field values \<^verbatim>\<open>a\<close> and \<^verbatim>\<open>b\<close> that neither record has.
\<close>

theorem separator_collision:
  "groupByMultiple
     [[(''f'', Str ''a|b''), (''g'', Str ''c'')], [(''f'', Str ''a''), (''g'', Str ''b|c'')]]
     [''f'', ''g'']
   = [(''a|b|c'', [[(''f'', Str ''a|b''), (''g'', Str ''c'')], [(''f'', Str ''a''), (''g'', Str ''b|c'')]])] \<and>
   groupAndAggregate
     [[(''f'', Str ''a|b''), (''g'', Str ''c'')], [(''f'', Str ''a''), (''g'', Str ''b|c'')]]
     [''f'', ''g''] []
   = [[(''_group'', Val (Str ''a|b|c'')), (''_count'', Val (Num (Fin 2))),
       (''f'', Val (Str ''a'')), (''g'', Val (Str ''b''))]]"
  by (simp add: groupAndAggregate_def group_row_def group_field_def groupByMultiple_def
      group_key_def key_part_def get_prop_def push_to_def aggregateGroup_def object_entries_def
      is_array_index_def all_digits_def is_digit_def js_split_def upt_rec)

lemma join_cut:
  assumes "CHR ''|'' \<notin> set x" and "CHR ''|'' \<notin> set y"
    and "x @ CHR ''|'' # r = y @ CHR ''|'' # s"
  shows "x = y \<and> r = s"
  using assms
proof (induction x arbitrary: y)
  case Nil
  then show ?case by (cases y) auto
next
  case (Cons c x)
  then show ?case by (cases y) auto
qed

lemma join_inj:
  assumes "length xs = length ys"
    and "\<forall>x \<in> set xs. CHR ''|'' \<notin> set x" and "\<forall>y \<in> set ys. CHR ''|'' \<notin> set y"
    and "js_join ''|'' xs = js_join ''|'' ys"
  shows "xs = ys"
  using assms
proof (induction xs ys rule: list_induct2)
  case Nil
  then show ?case by simp
next
  case (Cons x xs y ys)
  show ?case
  proof (cases xs)
    case Nil
    then have "ys = []" using Cons.hyps by simp
    then show ?thesis using Nil Cons.prems by simp
  next
    case (Cons x' xs')
    then obtain y' ys' where ys: "ys = y' # ys'" using Cons.hyps by (cases ys) auto
    have eq: "x @ CHR ''|'' # js_join ''|'' xs = y @ CHR ''|'' # js_join ''|'' ys"
      using Cons.prems(3) Cons ys by simp
    have "x = y \<and> js_join ''|'' xs = js_join ''|'' ys"
      using join_cut [OF _ _ eq] Cons.prems(1,2) by simp
    then show ?thesis using Cons.IH Cons.prems(1,2) by simp
  qed
qed

lemma group_members:
  assumes "\<forall>key ms. map_of acc key = Some ms \<longrightarrow> (\<forall>m \<in> set ms. gk m = key)"
    and "map_of (fold (\<lambda>item groups. push_to groups (gk item) item) data acc) key = Some ms"
    and "m \<in> set ms"
  shows "gk m = key"
  using assms
proof (induction data arbitrary: acc)
  case Nil
  then show ?case by simp
next
  case (Cons a data)
  have "\<forall>m \<in> set ms. gk m = key" if p: "map_of (push_to acc (gk a) a) key = Some ms" for key ms
  proof (cases "key = gk a")
    case True
    show ?thesis
    proof (cases "map_of acc (gk a)")
      case None
      then show ?thesis using p True by (auto simp: map_of_push_to)
    next
      case (Some old)
      then have "\<forall>m \<in> set old. gk m = gk a" using Cons.prems(1) by blast
      then show ?thesis using p True Some by (auto simp: map_of_push_to)
    qed
  next
    case False
    then show ?thesis using p Cons.prems(1) by (simp add: map_of_push_to)
  qed
  then have inv: "\<forall>key ms. map_of (push_to acc (gk a) a) key = Some ms \<longrightarrow> (\<forall>m \<in> set ms. gk m = key)"
    by blast
  have run: "map_of (fold (\<lambda>item groups. push_to groups (gk item) item) data (push_to acc (gk a) a)) key = Some ms"
    using Cons.prems(2) by simp
  show ?case by (rule Cons.IH [OF inv run Cons.prems(3)])
qed

text \<open>
  With one or two grouping fields the place of the marker decides: the key of the record
  with null starts or ends with an underscore where the key of the record with the empty
  text starts or ends with the separator.
\<close>

lemma two_fields_differ:
  assumes "f \<in> set fs" and "key_part r1 f = ''__null__''" and "key_part r2 f = []"
    and "length fs \<le> 2"
  shows "group_key fs r1 \<noteq> group_key fs r2"
proof (cases fs)
  case Nil
  then show ?thesis using assms(1) by simp
next
  case (Cons x xs)
  show ?thesis
  proof (cases xs)
    case Nil
    then show ?thesis using Cons assms(1,2,3) by (simp add: group_key_def)
  next
    case (Cons y ys)
    then have fs: "fs = [x, y]" using \<open>fs = x # xs\<close> assms(4) by simp
    show ?thesis
    proof (cases "f = x")
      case True
      then show ?thesis using fs assms(2,3) by (simp add: group_key_def)
    next
      case False
      then have fy: "f = y" using fs assms(1) by simp
      have l1: "last (group_key fs r1) = CHR ''_''"
        using fs fy assms(2) by (simp add: group_key_def)
      have l2: "last (group_key fs r2) = CHR ''|''"
        using fs fy assms(3) by (simp add: group_key_def)
      show ?thesis using l1 l2 by auto
    qed
  qed
qed

text \<open>
  C6, as the code has it. A grouping field that is missing or null gives the key segment
  \<^verbatim>\<open>__null__\<close>, and the empty text gives the empty segment. So a record with null and
  a record with the empty text in the same grouping field have different keys, and are
  never members of one group, when there are at most two grouping fields or when no key
  segment of the two records holds the separator.
\<close>

theorem null_marker_differs_from_empty:
  assumes "f \<in> set groupByFields"
    and "get_prop r1 f = Null \<or> get_prop r1 f = Undefined"
    and "get_prop r2 f = Str []"
    and "length groupByFields \<le> 2 \<or>
         (\<forall>g \<in> set groupByFields. CHR ''|'' \<notin> set (key_part r1 g) \<and> CHR ''|'' \<notin> set (key_part r2 g))"
  shows "key_part r1 f = ''__null__'' \<and> key_part r2 f = [] \<and>
         group_key groupByFields r1 \<noteq> group_key groupByFields r2 \<and>
         \<not> (\<exists>key ms. map_of (groupByMultiple data groupByFields) key = Some ms \<and>
                      r1 \<in> set ms \<and> r2 \<in> set ms)"
proof -
  have k1: "key_part r1 f = ''__null__''" using assms(2) by (auto simp: key_part_def)
  have k2: "key_part r2 f = []" using assms(3) by (simp add: key_part_def)
  have ne: "group_key groupByFields r1 \<noteq> group_key groupByFields r2"
  proof (cases "length groupByFields \<le> 2")
    case True
    then show ?thesis using two_fields_differ [OF assms(1) k1 k2] by simp
  next
    case False
    then have sep: "\<forall>g \<in> set groupByFields. CHR ''|'' \<notin> set (key_part r1 g) \<and> CHR ''|'' \<notin> set (key_part r2 g)"
      using assms(4) by simp
    show ?thesis
    proof
      assume eq: "group_key groupByFields r1 = group_key groupByFields r2"
      have "map (key_part r1) groupByFields = map (key_part r2) groupByFields"
        by (rule join_inj) (use sep eq in \<open>auto simp: group_key_def\<close>)
      then have "key_part r1 f = key_part r2 f" using assms(1) by simp
      then show False using k1 k2 by simp
    qed
  qed
  have "\<not> (\<exists>key ms. map_of (groupByMultiple data groupByFields) key = Some ms \<and> r1 \<in> set ms \<and> r2 \<in> set ms)"
  proof
    assume "\<exists>key ms. map_of (groupByMultiple data groupByFields) key = Some ms \<and> r1 \<in> set ms \<and> r2 \<in> set ms"
    then obtain key ms where g: "map_of (groupByMultiple data groupByFields) key = Some ms"
      and m1: "r1 \<in> set ms" and m2: "r2 \<in> set ms" by blast
    have e: "\<forall>key ms. map_of ([] :: (string \<times> jsobject list) list) key = Some ms \<longrightarrow>
               (\<forall>m \<in> set ms. group_key groupByFields m = key)" by simp
    have "group_key groupByFields r1 = key"
      using group_members [OF e, of data key ms r1] g m1 by (simp add: groupByMultiple_def)
    moreover have "group_key groupByFields r2 = key"
      using group_members [OF e, of data key ms r2] g m2 by (simp add: groupByMultiple_def)
    ultimately show False using ne by simp
  qed
  then show ?thesis using k1 k2 ne by blast
qed

text \<open>One grouping field, null in one record and the empty text in the other: two groups.\<close>

theorem null_marker_differs_from_empty_witness:
  "''f'' \<in> set [''f''] \<and> get_prop [(''f'', Null)] ''f'' = Null \<and> get_prop [(''f'', Str [])] ''f'' = Str [] \<and>
   length [''f''] = 1 \<and>
   group_key [''f''] [(''f'', Null)] \<noteq> group_key [''f''] [(''f'', Str [])] \<and>
   groupByMultiple [[(''f'', Null)], [(''f'', Str [])]] [''f'']
     = [(''__null__'', [[(''f'', Null)]]), ([], [[(''f'', Str [])]])]"
proof -
  have a: "''f'' \<in> set [''f'']" by simp
  have b: "get_prop [(''f'', Null)] ''f'' = Null \<or> get_prop [(''f'', Null)] ''f'' = Undefined"
    by (simp add: get_prop_def)
  have c: "get_prop [(''f'', Str [])] ''f'' = Str []" by (simp add: get_prop_def)
  have d: "length [''f''] \<le> 2 \<or>
           (\<forall>g \<in> set [''f'']. CHR ''|'' \<notin> set (key_part [(''f'', Null)] g) \<and>
                                CHR ''|'' \<notin> set (key_part [(''f'', Str [])] g))" by simp
  have e: "groupByMultiple [[(''f'', Null)], [(''f'', Str [])]] [''f'']
     = [(''__null__'', [[(''f'', Null)]]), ([], [[(''f'', Str [])]])]"
    by (simp add: groupByMultiple_def group_key_def key_part_def get_prop_def push_to_def)
  show ?thesis
    using null_marker_differs_from_empty [OF a b c d] e
    by (simp add: get_prop_def)
qed

text \<open>
  C6 as the specification states it fails twice. The marker is itself a possible text:
  the record whose field is null, the record whose field is the text \<^verbatim>\<open>__null__\<close>
  and the record without the field are one group. And with three grouping fields a record
  with null and a record with the empty text in the middle field are one group, when the
  separator stands in their other fields so that both keys read \<^verbatim>\<open>x||__null__|z\<close>.
\<close>

theorem null_marker_collision:
  "groupByMultiple [[(''f'', Null)], [(''f'', Str ''__null__'')], [(''g'', Num (Fin 1))]] [''f'']
   = [(''__null__'', [[(''f'', Null)], [(''f'', Str ''__null__'')], [(''g'', Num (Fin 1))]])] \<and>
   groupByMultiple
     [[(''a'', Str ''x|''), (''f'', Null), (''b'', Str ''z'')],
      [(''a'', Str ''x''), (''f'', Str []), (''b'', Str ''__null__|z'')]]
     [''a'', ''f'', ''b'']
   = [(''x||__null__|z'',
       [[(''a'', Str ''x|''), (''f'', Null), (''b'', Str ''z'')],
        [(''a'', Str ''x''), (''f'', Str []), (''b'', Str ''__null__|z'')]])]"
  by (simp add: groupByMultiple_def group_key_def key_part_def get_prop_def push_to_def)

subsection \<open>Minimum and maximum of a group\<close>

text \<open>
  C2 at its own examples. \<^verbatim>\<open>Number(v) || Infinity\<close> takes the number 0 for a missing
  one, so the minimum of 0 and 5 comes out as 5, and the maximum of 0 and -5 as -5.
\<close>

theorem min_max_skip_zero:
  "aggregateGroup [[(''v'', Num (Fin 0))], [(''v'', Num (Fin 5))]] [(''v'', ''min'')]
     = [(''v'', Val (Num (Fin 5)))] \<and>
   aggregateGroup [[(''v'', Num (Fin 0))], [(''v'', Num (Fin (- 5)))]] [(''v'', ''max'')]
     = [(''v'', Val (Num (Fin (- 5))))]"
  by (simp add: aggregateGroup_def object_entries_def is_array_index_def all_digits_def
      is_digit_def field_values_def get_prop_def aggregate_values_def math_min_def math_max_def
      num_or_def num_truthy_def num_min2_def num_max2_def)

subsection \<open>Percentiles\<close>

lemma insert_by_Fin:
  "insert_by (\<lambda>a b. num_less (Fin 0) (num_sub a b)) (Fin x) (map Fin ys) = map Fin (insort x ys)"
  by (induction ys) (auto simp: num_sub_def)

lemma sort_by_Fin:
  "sort_by (\<lambda>a b. num_less (Fin 0) (num_sub a b)) (map Fin xs) = map Fin (sort xs)"
  by (induction xs) (simp_all add: sort_by_def sort_key_def insert_by_Fin)

lemma sort_first_Min:
  assumes "xs \<noteq> []"
  shows "sort xs ! 0 = Min (set (xs::real list))"
proof -
  have "sort xs \<noteq> []" using assms by (metis length_0_conv length_sort)
  then obtain y ys where s: "sort xs = y # ys" by (cases "sort xs") auto
  have "sorted (y # ys)" using sorted_sort [of xs] s by simp
  then have "\<forall>z \<in> set (y # ys). y \<le> z" by auto
  moreover have "set (y # ys) = set xs" using s by (metis set_sort)
  ultimately have "Min (set xs) = y" by (intro Min_eqI) auto
  then show ?thesis by (simp add: s)
qed

lemma sort_last_Max:
  assumes "xs \<noteq> []"
  shows "sort xs ! (length xs - Suc 0) = Max (set (xs::real list))"
proof -
  have len: "length (sort xs) = length xs" by simp
  have srt: "sorted (sort xs)" by simp
  have "length xs - Suc 0 < length (sort xs)" using assms by simp
  then have "sort xs ! (length xs - Suc 0) \<in> set (sort xs)" by (rule nth_mem)
  then have mem: "sort xs ! (length xs - Suc 0) \<in> set xs" by simp
  have "z \<le> sort xs ! (length xs - Suc 0)" if "z \<in> set xs" for z
  proof -
    have "z \<in> set (sort xs)" using that by simp
    then obtain i where i: "i < length (sort xs)" "sort xs ! i = z"
      unfolding in_set_conv_nth by blast
    then have "i \<le> length xs - Suc 0" by simp
    then show ?thesis
      using sorted_nth_mono [OF srt, of i "length xs - Suc 0"] i assms by simp
  qed
  then show ?thesis using mem by (intro Max_eqI [symmetric]) auto
qed

lemma num_at_Fin:
  assumes "k < length ys"
  shows "num_at (map Fin ys) (Fin (real k)) = Fin (ys ! k)"
proof -
  have "\<lfloor>real k\<rfloor> = int k" by simp
  then show ?thesis using assms by simp
qed

lemma percentile_0:
  assumes "xs \<noteq> []"
  shows "calculatePercentile (map Fin xs) (Fin 0) = Fin (Min (set xs))"
proof -
  let ?n = "length xs"
  have n: "0 < ?n" using assms by simp
  have idx: "num_mul (num_div (Fin 0) (Fin 100)) (Fin (real (length (map Fin (sort xs))) - 1)) = Fin 0"
    by simp
  have ge: "\<not> num_ge (Fin 0) (Fin (real (length (map Fin (sort xs)))))"
    using n by (simp add: num_ge_def num_eq_def)
  have at: "num_at (map Fin (sort xs)) (Fin 0) = Fin (sort xs ! 0)"
    using num_at_Fin [of 0 "sort xs"] n by simp
  have w: "num_sub (Fin 0) (Fin 0) = Fin 0" by (simp add: num_sub_def)
  have "calculatePercentile (map Fin xs) (Fin 0) = Fin (sort xs ! 0)"
    unfolding calculatePercentile_def Let_def sort_by_Fin idx
    using n ge by (simp add: at w num_sub_def)
  then show ?thesis by (simp add: sort_first_Min assms)
qed

lemma percentile_100:
  assumes "xs \<noteq> []"
  shows "calculatePercentile (map Fin xs) (Fin 100) = Fin (Max (set xs))"
proof -
  let ?n = "length xs"
  have n: "0 < ?n" using assms by simp
  have r: "real ?n - 1 = real (?n - Suc 0)" using assms by (cases xs) simp_all
  have idx: "num_mul (num_div (Fin 100) (Fin 100)) (Fin (real (length (map Fin (sort xs))) - 1))
               = Fin (real (?n - Suc 0))"
    by (simp add: r)
  have fl: "num_floor (Fin (real (?n - Suc 0))) = Fin (real (?n - Suc 0))" by simp
  have ce: "num_ceil (Fin (real (?n - Suc 0))) = Fin (real (?n - Suc 0))"
  proof -
    have "\<lfloor>- real (?n - Suc 0)\<rfloor> = - int (?n - Suc 0)" by linarith
    then show ?thesis by simp
  qed
  have ge: "\<not> num_ge (Fin (real (?n - Suc 0))) (Fin (real (length (map Fin (sort xs)))))"
    using assms by (cases xs) (simp_all add: num_ge_def num_eq_def)
  have at: "num_at (map Fin (sort xs)) (Fin (real (?n - Suc 0))) = Fin (sort xs ! (?n - Suc 0))"
    using num_at_Fin [of "?n - Suc 0" "sort xs"] n by simp
  have w: "num_sub (Fin (real (?n - Suc 0))) (Fin (real (?n - Suc 0))) = Fin 0"
    by (simp add: num_sub_def)
  have "calculatePercentile (map Fin xs) (Fin 100) = Fin (sort xs ! (?n - Suc 0))"
    unfolding calculatePercentile_def Let_def sort_by_Fin idx fl ce w at
    using n ge by (simp add: num_sub_def)
  then show ?thesis by (simp add: sort_last_Max assms)
qed

text \<open>
  C7, as the code has it. On a list of finite numbers that is not empty, the percentile 0 is the least and
  the percentile 100 the greatest of them; the percentile 50 of 10 and 20 is 15; and
  the percentile of the empty list is 0, whatever the rank asked for. (At the ranks 0
  and 100 the index is a whole number and the weight is 0, and the result is one element
  of the sorted list times 1 plus the same element times 0: no rounding is involved in the
  program either.)
\<close>

theorem percentile_boundaries:
  assumes "xs \<noteq> []"
  shows "calculatePercentile (map Fin xs) (Fin 0) = Fin (Min (set xs)) \<and>
         calculatePercentile (map Fin xs) (Fin 100) = Fin (Max (set xs)) \<and>
         calculatePercentile [Fin 10, Fin 20] (Fin 50) = Fin 15 \<and>
         calculatePercentile [] p = Fin 0"
proof -
  have p50: "calculatePercentile [Fin 10, Fin 20] (Fin 50) = Fin 15"
    by (simp add: calculatePercentile_def Let_def sort_by_def num_ge_def num_eq_def num_sub_def)
  have e: "calculatePercentile [] p = Fin 0"
    by (simp add: calculatePercentile_def)
  show ?thesis using percentile_0 [OF assms] percentile_100 [OF assms] p50 e by blast
qed

text \<open>The list 3, 1, 2.\<close>

theorem percentile_boundaries_witness:
  "[3, 1, 2 :: real] \<noteq> [] \<and>
   calculatePercentile [Fin 3, Fin 1, Fin 2] (Fin 0) = Fin 1 \<and>
   calculatePercentile [Fin 3, Fin 1, Fin 2] (Fin 100) = Fin 3"
proof -
  have ne: "[3, 1, 2 :: real] \<noteq> []" by simp
  have mn: "Min (set [3, 1, 2 :: real]) = 1" by simp
  have mx: "Max (set [3, 1, 2 :: real]) = 3" by simp
  have "calculatePercentile (map Fin [3, 1, 2]) (Fin 0) = Fin (Min (set [3, 1, 2])) \<and>
        calculatePercentile (map Fin [3, 1, 2]) (Fin 100) = Fin (Max (set [3, 1, 2]))"
    using percentile_boundaries [OF ne, of undefined] by blast
  then have "calculatePercentile [Fin 3, Fin 1, Fin 2] (Fin 0) = Fin 1 \<and>
        calculatePercentile [Fin 3, Fin 1, Fin 2] (Fin 100) = Fin 3"
    unfolding mn mx list.map .
  with ne show ?thesis by (rule conjI)
qed

text \<open>
  C7 as the specification states it, for every list of numeric values, fails when a value
  is infinite: the element at the boundary is multiplied by the weight 0, and infinity
  times 0 is NaN. So the percentile 100 of 3, Infinity, 1 is NaN and not the maximum
  Infinity, and the percentile 0 of 1, -Infinity is NaN and not the minimum. The
  field text \<^verbatim>\<open>Infinity\<close> brings such a value into \<^verbatim>\<open>aggregateGroup\<close>.
\<close>

theorem percentile_of_infinity_is_nan:
  "calculatePercentile [Fin 3, PosInf, Fin 1] (Fin 100) = NaN \<and>
   math_max [Fin 3, PosInf, Fin 1] = PosInf \<and>
   calculatePercentile [Fin 1, NegInf] (Fin 0) = NaN \<and>
   math_min [Fin 1, NegInf] = NegInf \<and>
   aggregateGroup [[(''v'', Str ''3'')], [(''v'', Str ''Infinity'')], [(''v'', Str ''1'')]]
     [(''v'', ''percentile:100'')] = [(''v'', Val (Num NaN))]"
proof -
  have a: "calculatePercentile [Fin 3, PosInf, Fin 1] (Fin 100) = NaN"
    by (simp add: calculatePercentile_def Let_def sort_by_def num_ge_def num_eq_def num_sub_def
        signed_inf_def)
  have b: "math_max [Fin 3, PosInf, Fin 1] = PosInf"
    by (simp add: math_max_def num_max2_def)
  have c: "calculatePercentile [Fin 1, NegInf] (Fin 0) = NaN"
    by (simp add: calculatePercentile_def Let_def sort_by_def num_ge_def num_eq_def num_sub_def
        signed_inf_def)
  have d: "math_min [Fin 1, NegInf] = NegInf"
    by (simp add: math_min_def num_min2_def)
  have n3: "StringToNumber ''3'' = Fin 3" and n1: "StringToNumber ''1'' = Fin 1"
    and ni: "StringToNumber ''Infinity'' = PosInf"
    by (simp_all add: StringToNumber_def js_trim_def is_space_def unsigned_decimal_def
        is_digit_def digit_val_def)
  have p: "parseInt ''100'' = Fin 100"
    by (simp add: parseInt_def is_space_def is_digit_def is_hex_def digit_val_def)
  have sp: "js_split ''percentile:100'' '':'' = [''percentile'', ''100'']"
    by (simp add: js_split_def)
  have e: "aggregateGroup [[(''v'', Str ''3'')], [(''v'', Str ''Infinity'')], [(''v'', Str ''1'')]]
     [(''v'', ''percentile:100'')] = [(''v'', Val (Num NaN))]"
    by (simp add: aggregateGroup_def object_entries_def is_array_index_def all_digits_def
        is_digit_def field_values_def get_prop_def aggregate_values_def startsWith_def
        n3 n1 ni p sp a)
  show ?thesis using a b c d e by blast
qed

subsection \<open>Empty cells of the pivot table\<close>

lemma pivot_collect_values:
  assumes "\<forall>item \<in> set data. pivot_key (get_prop item rf) (get_prop item cf) \<noteq> key"
  shows "map_of (snd (snd (fold (pivot_collect rf cf vf) data st))) key = map_of (snd (snd st)) key"
  using assms
  by (induction data arbitrary: st) (auto simp: pivot_collect_def Let_def map_of_push_to)

lemma pivot_aggregate_empty: "pivot_aggregate aggFunction [] = Fin 0"
  by (simp add: pivot_aggregate_def)

lemma pivot_cell_text:
  "pivot_cell values aggFunction row col = cell_of values aggFunction (ToString row) (ToString col)"
  by (simp add: pivot_cell_def cell_of_def pivot_key_def)

lemma pivot_row_lookup:
  assumes "col \<in> set columns"
  shows "map_of (pivot_row values aggFunction columns row) (ToString col)
           = Some (pivot_cell values aggFunction row col)"
  unfolding pivot_row_def pivot_cell_text
  using assms
  by (simp add: map_of_fold_set_prop [where k = ToString and g = "cell_of values aggFunction (ToString row)"])

lemma pivot_row_text:
  "pivot_row values aggFunction columns row =
     fold (\<lambda>col inner. set_prop inner (ToString col) (cell_of values aggFunction (ToString row) (ToString col)))
       columns []"
  by (simp add: pivot_row_def pivot_cell_text)

text \<open>
  C9. For a row key and a column key of the table returned, such that no record of the
  data has this pair of keys (no value was collected under the pair's key), the cell is
  0, whatever the aggregation function: sum, avg, count, min, max or any other text.
\<close>

theorem pivot_empty_cell_is_zero:
  assumes "row \<in> set (pivot_rows (pivotTable data rowField columnField valueField aggFunction))"
    and "col \<in> set (pivot_columns (pivotTable data rowField columnField valueField aggFunction))"
    and "\<forall>item \<in> set data.
           pivot_key (get_prop item rowField) (get_prop item columnField) \<noteq> pivot_key row col"
  shows "pivot_lookup (pivotTable data rowField columnField valueField aggFunction) row col
           = Some (Fin 0)"
proof -
  let ?st = "fold (pivot_collect rowField columnField valueField) data ([], [], [])"
  let ?rows = "fst ?st" and ?columns = "fst (snd ?st)" and ?vals = "snd (snd ?st)"
  have r: "row \<in> set ?rows" using assms(1) by (simp add: pivotTable_def Let_def set_sort_by)
  have c: "col \<in> set ?columns" using assms(2) by (simp add: pivotTable_def Let_def set_sort_by)
  have none: "map_of ?vals (pivot_key row col) = None"
    using pivot_collect_values [OF assms(3), of valueField "([], [], [])"] by simp
  have cell: "pivot_cell ?vals aggFunction row col = Fin 0"
    by (simp add: pivot_cell_def none pivot_aggregate_empty)
  have outer: "map_of (fold (\<lambda>row pivot. set_prop pivot (ToString row)
                         (pivot_row ?vals aggFunction ?columns row)) ?rows []) (ToString row)
                 = Some (pivot_row ?vals aggFunction ?columns row)"
    unfolding pivot_row_text using r
    by (simp add: map_of_fold_set_prop [where k = ToString
          and g = "\<lambda>rt. fold (\<lambda>col inner. set_prop inner (ToString col)
                       (cell_of ?vals aggFunction rt (ToString col))) ?columns []"])
  show ?thesis
    by (simp add: pivot_lookup_def pivotTable_def Let_def outer pivot_row_lookup [OF c] cell)
qed

text \<open>The rows x and y, the columns p and q, no record for y and q, under min.\<close>

theorem pivot_empty_cell_is_zero_witness:
  "Str ''y'' \<in> set (pivot_rows (pivotTable
      [[(''r'', Str ''x''), (''c'', Str ''p''), (''v'', Num (Fin 1))],
       [(''r'', Str ''x''), (''c'', Str ''q''), (''v'', Num (Fin 2))],
       [(''r'', Str ''y''), (''c'', Str ''p''), (''v'', Num (Fin 3))]] ''r'' ''c'' ''v'' ''min'')) \<and>
   Str ''q'' \<in> set (pivot_columns (pivotTable
      [[(''r'', Str ''x''), (''c'', Str ''p''), (''v'', Num (Fin 1))],
       [(''r'', Str ''x''), (''c'', Str ''q''), (''v'', Num (Fin 2))],
       [(''r'', Str ''y''), (''c'', Str ''p''), (''v'', Num (Fin 3))]] ''r'' ''c'' ''v'' ''min'')) \<and>
   pivot_lookup (pivotTable
      [[(''r'', Str ''x''), (''c'', Str ''p''), (''v'', Num (Fin 1))],
       [(''r'', Str ''x''), (''c'', Str ''q''), (''v'', Num (Fin 2))],
       [(''r'', Str ''y''), (''c'', Str ''p''), (''v'', Num (Fin 3))]] ''r'' ''c'' ''v'' ''min'')
     (Str ''y'') (Str ''q'') = Some (Fin 0)"
proof -
  let ?data = "[[(''r'', Str ''x''), (''c'', Str ''p''), (''v'', Num (Fin 1))],
       [(''r'', Str ''x''), (''c'', Str ''q''), (''v'', Num (Fin 2))],
       [(''r'', Str ''y''), (''c'', Str ''p''), (''v'', Num (Fin 3))]]"
  have rows: "set (pivot_rows (pivotTable ?data ''r'' ''c'' ''v'' ''min'')) = {Str ''x'', Str ''y''}"
    by (simp add: pivotTable_def Let_def set_sort_by pivot_collect_def set_add_def get_prop_def)
  have cols: "set (pivot_columns (pivotTable ?data ''r'' ''c'' ''v'' ''min'')) = {Str ''p'', Str ''q''}"
    by (simp add: pivotTable_def Let_def set_sort_by pivot_collect_def set_add_def get_prop_def)
  have r: "Str ''y'' \<in> set (pivot_rows (pivotTable ?data ''r'' ''c'' ''v'' ''min''))"
    unfolding rows by simp
  have c: "Str ''q'' \<in> set (pivot_columns (pivotTable ?data ''r'' ''c'' ''v'' ''min''))"
    unfolding cols by simp
  have n: "\<forall>item \<in> set ?data.
             pivot_key (get_prop item ''r'') (get_prop item ''c'') \<noteq> pivot_key (Str ''y'') (Str ''q'')"
    by (simp add: pivot_key_def get_prop_def)
  show ?thesis
    using pivot_empty_cell_is_zero [OF r c n] r c by blast
qed

end
